theory Spec2Isabelle
  imports Complex_Main "HOL-Library.Word"
begin

section \<open>PerformanceMonitorWidget: telemetry sampling and the CPU history graph\<close>

text \<open>
  A shallow embedding of \<^verbatim>\<open>PerformanceMonitor.cpp\<close> (the WMI sampler) and of the history
  code of \<^verbatim>\<open>Gui::RenderPerformanceWindow\<close> in \<^verbatim>\<open>Gui.cpp\<close>.

  Conventions.
  \<^item> \<^verbatim>\<open>ULONG\<close> is a 32-bit word; \<^verbatim>\<open>HRESULT\<close> is a 32-bit word read as signed.
  \<^item> A C++ \<^verbatim>\<open>float\<close> is modelled by the real number it approximates: binary32 rounding is
    abstracted. Conversions of integers below \<open>2^24\<close> are exact in binary32 as well.
  \<^item> A COM interface pointer is \<open>addr option\<close>; \<open>None\<close> is \<^verbatim>\<open>nullptr\<close>.
  \<^item> Behaviour that C++ leaves undefined (a call through a released interface pointer, a
    read of \<^verbatim>\<open>bstrVal\<close> from a VARIANT holding no string) is a value of type \<open>fault\<close>.
\<close>

subsection \<open>Machine types\<close>

type_synonym ULONG = "32 word"
type_synonym HRESULT = "32 word"
type_synonym cfloat = real
type_synonym addr = nat

text \<open>The macros \<^verbatim>\<open>FAILED(hr)\<close> and \<^verbatim>\<open>SUCCEEDED(hr)\<close> of the Windows SDK.\<close>

definition FAILED :: "HRESULT \<Rightarrow> bool" where
  "FAILED hr = (sint hr < 0)"

definition SUCCEEDED :: "HRESULT \<Rightarrow> bool" where
  "SUCCEEDED hr = (0 \<le> sint hr)"

text \<open>\<^verbatim>\<open>static_cast<float>(x)\<close> for an unsigned 32-bit \<open>x\<close>.\<close>

definition to_float :: "ULONG \<Rightarrow> cfloat" where
  "to_float x = real (unat x)"

subsection \<open>The C runtime's \<^verbatim>\<open>_wtol\<close>\<close>

text \<open>
  \<^verbatim>\<open>_wtol\<close> skips leading white space, reads an optional sign and then decimal digits up to
  the first character that is not a digit. With no digits the result is 0; on overflow the
  result is \<^verbatim>\<open>LONG_MAX\<close> or \<^verbatim>\<open>LONG_MIN\<close> (a 32-bit \<^verbatim>\<open>long\<close>). The source assigns the
  \<^verbatim>\<open>long\<close> to a \<^verbatim>\<open>ULONG\<close>, which keeps the bits.
\<close>

definition is_space :: "char \<Rightarrow> bool" where
  "is_space c = (c = CHR '' '' \<or> (9 \<le> (of_char c :: nat) \<and> (of_char c :: nat) \<le> 13))"

definition is_digit :: "char \<Rightarrow> bool" where
  "is_digit c = (48 \<le> (of_char c :: nat) \<and> (of_char c :: nat) \<le> 57)"

fun wtol_digits :: "int \<Rightarrow> string \<Rightarrow> int" where
  "wtol_digits acc [] = acc"
| "wtol_digits acc (c # cs) =
     (if is_digit c then wtol_digits (acc * 10 + (int (of_char c) - 48)) cs else acc)"

definition clamp_long :: "int \<Rightarrow> int" where
  "clamp_long n = max (- 2147483648) (min 2147483647 n)"

definition wtol_long :: "string \<Rightarrow> int" where
  "wtol_long s =
     (case dropWhile is_space s of
        [] \<Rightarrow> 0
      | c # cs \<Rightarrow>
          if c = CHR ''-'' then clamp_long (- wtol_digits 0 cs)
          else if c = CHR ''+'' then clamp_long (wtol_digits 0 cs)
          else clamp_long (wtol_digits 0 (c # cs)))"

definition wtol :: "string \<Rightarrow> ULONG" where
  "wtol s = word_of_int (wtol_long s)"

subsection \<open>The WMI provider as seen by one call of \<^verbatim>\<open>Update\<close>\<close>

text \<open>
  The tag and payload of a \<^verbatim>\<open>VARIANT\<close>. Only \<^verbatim>\<open>VT_BSTR\<close> and \<^verbatim>\<open>VT_I4\<close> are told apart by
  the source; the other constructors stand for the remaining variant types.
\<close>

datatype variant =
    VT_EMPTY
  | VT_NULL
  | VT_I4 ULONG
  | VT_UI4 ULONG
  | VT_R8 real
  | VT_BOOL bool
  | VT_BSTR string

text \<open>
  \<^verbatim>\<open>IWbemClassObject::Get(name, ...)\<close>: \<open>None\<close> when the call returns a failure code,
  otherwise the property's variant.
\<close>

type_synonym wbem_object = "string \<Rightarrow> variant option"

text \<open>
  The single \<^verbatim>\<open>IEnumWbemClassObject::Next\<close> call: either \<^verbatim>\<open>WBEM_S_NO_ERROR\<close> with an
  object, or any other return code (no more objects, time-out, error).
\<close>

datatype next_result = NextNoError wbem_object | NextOther

text \<open>
  \<^verbatim>\<open>IWbemServices::ExecQuery\<close>: a failure code, or success with the enumerator it hands
  out (ExecQuery sets the enumerator whenever it succeeds, so the test
  \<^verbatim>\<open>SUCCEEDED(hRes) && pEnumerator\<close> of the memory block is the test for \<open>ExecOk\<close>).
\<close>

datatype exec_result = ExecFailed | ExecOk next_result

text \<open>The provider answers each WQL query text.\<close>

type_synonym provider = "string \<Rightarrow> exec_result"

definition cpuQuery :: string where
  "cpuQuery = ''SELECT PercentProcessorTime FROM Win32_PerfFormattedData_PerfOS_Processor WHERE Name='_Total'' @ [CHR 0x27]"

definition memQuery :: string where
  "memQuery = ''SELECT TotalVisibleMemorySize, FreePhysicalMemory FROM Win32_OperatingSystem''"

definition diskQuery :: string where
  "diskQuery = ''SELECT PercentDiskTime FROM Win32_PerfFormattedData_PerfDisk_PhysicalDisk WHERE Name='_Total'' @ [CHR 0x27]"

subsection \<open>The COM runtime: what the program holds\<close>

datatype api_call =
    CallCoInitializeEx
  | CallCoInitializeSecurity
  | CallCoCreateInstance
  | CallConnectServer
  | CallCoSetProxyBlanket
  | CallRelease addr
  | CallCoUninitialize

text \<open>
  \<open>comInits\<close> counts the successful \<^verbatim>\<open>CoInitializeEx\<close> calls of the thread that are not yet
  balanced by \<^verbatim>\<open>CoUninitialize\<close>; \<open>refs a\<close> is the number of references the program owns
  on the COM object at address \<open>a\<close> (0: none, the object is gone for the program);
  \<open>calls\<close> logs the lifecycle calls in the order they are made.
\<close>

record com_env =
  comInits :: nat
  refs :: "addr \<Rightarrow> nat"
  calls :: "api_call list"

datatype fault = UseAfterRelease | BadVariantRead

text \<open>
  What the five COM calls of \<^verbatim>\<open>Initialize\<close> return: their HRESULTs and, for the two calls
  that hand out an interface, the address of the object (used when the call succeeds).
\<close>

record com_results =
  hrCoInitializeEx :: HRESULT
  hrCoInitializeSecurity :: HRESULT
  hrCoCreateInstance :: HRESULT
  locatorObject :: addr
  hrConnectServer :: HRESULT
  servicesObject :: addr
  hrCoSetProxyBlanket :: HRESULT

definition logCall :: "api_call \<Rightarrow> com_env \<Rightarrow> com_env" where
  "logCall c env = env\<lparr>calls := calls env @ [c]\<rparr>"

definition CoInitializeEx :: "HRESULT \<Rightarrow> com_env \<Rightarrow> com_env" where
  "CoInitializeEx hr env =
     logCall CallCoInitializeEx
       (env\<lparr>comInits := (if FAILED hr then comInits env else comInits env + 1)\<rparr>)"

text \<open>An unbalanced \<^verbatim>\<open>CoUninitialize\<close> (count already 0) leaves the count at 0.\<close>

definition CoUninitialize :: "com_env \<Rightarrow> com_env" where
  "CoUninitialize env = logCall CallCoUninitialize (env\<lparr>comInits := comInits env - 1\<rparr>)"

text \<open>
  A call that hands out an interface pointer: on success the program owns one more
  reference on the object and the out-parameter receives its address; on failure the
  out-parameter receives \<^verbatim>\<open>NULL\<close> (as \<^verbatim>\<open>CoCreateInstance\<close> and \<^verbatim>\<open>ConnectServer\<close> document).
\<close>

definition acquire :: "api_call \<Rightarrow> HRESULT \<Rightarrow> addr \<Rightarrow> com_env \<Rightarrow> com_env \<times> addr option" where
  "acquire c hr a env =
     (if FAILED hr then (logCall c env, None)
      else (logCall c (env\<lparr>refs := (refs env)(a := refs env a + 1)\<rparr>), Some a))"

text \<open>\<^verbatim>\<open>p->Release()\<close>: undefined when the program owns no reference on the object.\<close>

definition Release :: "addr \<Rightarrow> com_env \<Rightarrow> fault + com_env" where
  "Release a env =
     (if refs env a = 0 then Inl UseAfterRelease
      else Inr (logCall (CallRelease a) (env\<lparr>refs := (refs env)(a := refs env a - 1)\<rparr>)))"

subsection \<open>\<^verbatim>\<open>class PerformanceMonitor\<close>\<close>

record PerformanceMonitor =
  m_pLocator :: "addr option"
  m_pServices :: "addr option"
  m_cpuLoad :: cfloat
  m_memoryUsage :: cfloat
  m_diskUsage :: cfloat

text \<open>The constructor.\<close>

definition PerformanceMonitor_new :: PerformanceMonitor where
  "PerformanceMonitor_new =
     \<lparr>m_pLocator = None, m_pServices = None, m_cpuLoad = 0, m_memoryUsage = 0, m_diskUsage = 0\<rparr>"

definition GetCpuLoad :: "PerformanceMonitor \<Rightarrow> cfloat" where
  "GetCpuLoad s = m_cpuLoad s"

definition GetMemoryUsage :: "PerformanceMonitor \<Rightarrow> cfloat" where
  "GetMemoryUsage s = m_memoryUsage s"

definition GetDiskUsage :: "PerformanceMonitor \<Rightarrow> cfloat" where
  "GetDiskUsage s = m_diskUsage s"

text \<open>
  \<^verbatim>\<open>Initialize\<close>: the result is the returned \<^verbatim>\<open>bool\<close>, the COM runtime afterwards and the
  object afterwards. The failure branches release what the earlier steps acquired; they
  do not reset \<^verbatim>\<open>m_pLocator\<close> and \<^verbatim>\<open>m_pServices\<close>.
\<close>

definition Initialize ::
  "com_results \<Rightarrow> com_env \<Rightarrow> PerformanceMonitor \<Rightarrow> fault + (bool \<times> com_env \<times> PerformanceMonitor)" where
  "Initialize r env s =
     (let env1 = CoInitializeEx (hrCoInitializeEx r) env in
      if FAILED (hrCoInitializeEx r) then Inr (False, env1, s)
      else
        let env2 = logCall CallCoInitializeSecurity env1 in
        if FAILED (hrCoInitializeSecurity r) then Inr (False, CoUninitialize env2, s)
        else
          let (env3, loc) = acquire CallCoCreateInstance (hrCoCreateInstance r) (locatorObject r) env2;
              s3 = s\<lparr>m_pLocator := loc\<rparr>
          in
          if FAILED (hrCoCreateInstance r) then Inr (False, CoUninitialize env3, s3)
          else
            let (env4, svc) = acquire CallConnectServer (hrConnectServer r) (servicesObject r) env3;
                s4 = s3\<lparr>m_pServices := svc\<rparr>
            in
            if FAILED (hrConnectServer r) then
              (case Release (locatorObject r) env4 of
                 Inl f \<Rightarrow> Inl f
               | Inr env5 \<Rightarrow> Inr (False, CoUninitialize env5, s4))
            else
              let env5 = logCall CallCoSetProxyBlanket env4 in
              if FAILED (hrCoSetProxyBlanket r) then
                (case Release (servicesObject r) env5 of
                   Inl f \<Rightarrow> Inl f
                 | Inr env6 \<Rightarrow>
                     (case Release (locatorObject r) env6 of
                        Inl f \<Rightarrow> Inl f
                      | Inr env7 \<Rightarrow> Inr (False, CoUninitialize env7, s4)))
              else Inr (True, env5, s4))"

definition Shutdown :: "com_env \<Rightarrow> PerformanceMonitor \<Rightarrow> fault + (com_env \<times> PerformanceMonitor)" where
  "Shutdown env s =
     (case (case m_pServices s of
              None \<Rightarrow> Inr (env, s)
            | Some a \<Rightarrow>
                (case Release a env of
                   Inl f \<Rightarrow> Inl f
                 | Inr env1 \<Rightarrow> Inr (env1, s\<lparr>m_pServices := None\<rparr>))) of
        Inl f \<Rightarrow> Inl f
      | Inr (env1, s1) \<Rightarrow>
          (case (case m_pLocator s1 of
                   None \<Rightarrow> Inr (env1, s1)
                 | Some a \<Rightarrow>
                     (case Release a env1 of
                        Inl f \<Rightarrow> Inl f
                      | Inr env2 \<Rightarrow> Inr (env2, s1\<lparr>m_pLocator := None\<rparr>))) of
             Inl f \<Rightarrow> Inl f
           | Inr (env2, s2) \<Rightarrow> Inr (CoUninitialize env2, s2)))"

text \<open>
  \<^verbatim>\<open>GetWmiPropertyValue(wqlQuery, propertyName, value)\<close>: the returned \<^verbatim>\<open>bool\<close> and the
  content of the reference parameter \<^verbatim>\<open>value\<close> afterwards.
\<close>

definition GetWmiPropertyValue :: "provider \<Rightarrow> string \<Rightarrow> string \<Rightarrow> ULONG \<Rightarrow> bool \<times> ULONG" where
  "GetWmiPropertyValue p wqlQuery propertyName val =
     (case p wqlQuery of
        ExecFailed \<Rightarrow> (False, val)
      | ExecOk nxt \<Rightarrow>
          (case nxt of
             NextOther \<Rightarrow> (False, val)
           | NextNoError pClsObj \<Rightarrow>
               (case pClsObj propertyName of
                  None \<Rightarrow> (False, val)
                | Some vtProp \<Rightarrow>
                    (case vtProp of
                       VT_BSTR bstrVal \<Rightarrow> (True, wtol bstrVal)
                     | VT_I4 ulVal \<Rightarrow> (True, ulVal)
                     | _ \<Rightarrow> (False, val)))))"

text \<open>
  The memory block of \<^verbatim>\<open>Update\<close> reads \<^verbatim>\<open>vtProp.bstrVal\<close> without looking at the result
  of \<^verbatim>\<open>Get\<close> or at the variant's tag: the read is defined only for a string variant.
\<close>

definition read_bstrVal :: "variant option \<Rightarrow> fault + string" where
  "read_bstrVal g = (case g of Some (VT_BSTR b) \<Rightarrow> Inr b | _ \<Rightarrow> Inl BadVariantRead)"

definition Update :: "provider \<Rightarrow> com_env \<Rightarrow> PerformanceMonitor \<Rightarrow> fault + PerformanceMonitor" where
  "Update p env s =
     (case m_pServices s of
        None \<Rightarrow> Inr s
      | Some svc \<Rightarrow>
          if refs env svc = 0 then Inl UseAfterRelease
          else
            let (cpuOk, cpuLoadPercent) = GetWmiPropertyValue p cpuQuery ''PercentProcessorTime'' 0;
                s1 = (if cpuOk then s\<lparr>m_cpuLoad := to_float cpuLoadPercent\<rparr> else s)
            in
            (case (case p memQuery of
                     ExecFailed \<Rightarrow> Inr s1
                   | ExecOk nxt \<Rightarrow>
                       (case nxt of
                          NextOther \<Rightarrow> Inr s1
                        | NextNoError pClsObj \<Rightarrow>
                            (case read_bstrVal (pClsObj ''TotalVisibleMemorySize'') of
                               Inl f \<Rightarrow> Inl f
                             | Inr totalText \<Rightarrow>
                                 (case read_bstrVal (pClsObj ''FreePhysicalMemory'') of
                                    Inl f \<Rightarrow> Inl f
                                  | Inr freeText \<Rightarrow>
                                      let totalMemory = wtol totalText;
                                          freeMemory = wtol freeText
                                      in
                                      if 0 < unat totalMemory then
                                        Inr (s1\<lparr>m_memoryUsage :=
                                               (to_float (totalMemory - freeMemory) / to_float totalMemory)
                                                 * 100\<rparr>)
                                      else Inr s1)))) of
               Inl f \<Rightarrow> Inl f
             | Inr s2 \<Rightarrow>
                 let (diskOk, diskUsagePercent) = GetWmiPropertyValue p diskQuery ''PercentDiskTime'' 0
                 in Inr (if diskOk then s2\<lparr>m_diskUsage := to_float diskUsagePercent\<rparr> else s2)))"

subsection \<open>Runs of the public interface\<close>

datatype op = OpInitialize com_results | OpUpdate provider | OpShutdown

definition fresh_env :: com_env where
  "fresh_env = \<lparr>comInits = 0, refs = (\<lambda>a. 0), calls = []\<rparr>"

fun step :: "com_env \<times> PerformanceMonitor \<Rightarrow> op \<Rightarrow> fault + (com_env \<times> PerformanceMonitor)" where
  "step (env, s) (OpInitialize r) =
     (case Initialize r env s of Inl f \<Rightarrow> Inl f | Inr (ok, env', s') \<Rightarrow> Inr (env', s'))"
| "step (env, s) (OpUpdate p) =
     (case Update p env s of Inl f \<Rightarrow> Inl f | Inr s' \<Rightarrow> Inr (env, s'))"
| "step (env, s) OpShutdown = Shutdown env s"

fun run :: "com_env \<times> PerformanceMonitor \<Rightarrow> op list \<Rightarrow> fault + (com_env \<times> PerformanceMonitor)" where
  "run st [] = Inr st"
| "run st (x # xs) = (case step st x of Inl f \<Rightarrow> Inl f | Inr st' \<Rightarrow> run st' xs)"

subsection \<open>The CPU history of \<^verbatim>\<open>Gui::RenderPerformanceWindow\<close>\<close>

text \<open>
  The three function-local statics \<^verbatim>\<open>cpuHistory[90]\<close>, \<^verbatim>\<open>historyIndex\<close> and \<^verbatim>\<open>filled\<close>.
  \<^verbatim>\<open>historyIndex\<close> is a C \<^verbatim>\<open>int\<close> that starts at 0 and is only ever assigned
  \<^verbatim>\<open>(historyIndex + 1) % 90\<close>, so it is modelled as a natural number.
\<close>

record HistoryBuffer =
  cpuHistory :: "cfloat list"
  historyIndex :: nat
  filled :: bool

definition HistoryBuffer_init :: HistoryBuffer where
  "HistoryBuffer_init = \<lparr>cpuHistory = replicate 90 0, historyIndex = 0, filled = False\<rparr>"

text \<open>Lines 169 to 174: store the sample, set \<^verbatim>\<open>filled\<close> at slot 89, advance the index.\<close>

definition Push :: "HistoryBuffer \<Rightarrow> cfloat \<Rightarrow> HistoryBuffer" where
  "Push h v =
     \<lparr>cpuHistory = (cpuHistory h)[historyIndex h := v],
      historyIndex = (historyIndex h + 1) mod 90,
      filled = (if historyIndex h = 89 then True else filled h)\<rparr>"

text \<open>
  \<^verbatim>\<open>ImGui::PlotLines(label, values, values_count, values_offset, ...)\<close> draws, from left to
  right, \<open>values[(i + values_offset) % values_count]\<close> for \<open>i = 0, ..., values_count - 1\<close>.
\<close>

definition PlotLines :: "cfloat list \<Rightarrow> nat \<Rightarrow> nat \<Rightarrow> cfloat list" where
  "PlotLines vals values_count values_offset =
     map (\<lambda>i. vals ! ((i + values_offset) mod values_count)) [0..<values_count]"

text \<open>Line 176: the sequence handed to the graph, left (oldest) to right.\<close>

definition SnapshotOrdered :: "HistoryBuffer \<Rightarrow> cfloat list" where
  "SnapshotOrdered h = PlotLines (cpuHistory h) 90 (if filled h then historyIndex h else 0)"

definition pushes :: "cfloat list \<Rightarrow> HistoryBuffer" where
  "pushes vs = foldl Push HistoryBuffer_init vs"

record Gui =
  m_perfMonitor :: PerformanceMonitor
  cpuGraph :: HistoryBuffer

text \<open>
  The part of \<^verbatim>\<open>RenderPerformanceWindow\<close> that touches state: the new statics and the
  plotted line.
\<close>

definition RenderPerformanceWindow :: "Gui \<Rightarrow> Gui \<times> cfloat list" where
  "RenderPerformanceWindow g =
     (let cpu = GetCpuLoad (m_perfMonitor g);
          h = Push (cpuGraph g) cpu
      in (g\<lparr>cpuGraph := h\<rparr>, SnapshotOrdered h))"

text \<open>\<^verbatim>\<open>Gui::Render\<close>: poll the monitor, then draw.\<close>

definition Render :: "provider \<Rightarrow> com_env \<Rightarrow> Gui \<Rightarrow> fault + (Gui \<times> cfloat list)" where
  "Render p env g =
     (case Update p env (m_perfMonitor g) of
        Inl f \<Rightarrow> Inl f
      | Inr pm \<Rightarrow> Inr (RenderPerformanceWindow (g\<lparr>m_perfMonitor := pm\<rparr>)))"

subsection \<open>Vocabulary for the statements\<close>

text \<open>The variant that \<^verbatim>\<open>Get\<close> delivered is a string.\<close>

definition is_bstr :: "variant option \<Rightarrow> bool" where
  "is_bstr g = (case g of Some (VT_BSTR b) \<Rightarrow> True | _ \<Rightarrow> False)"

text \<open>
  The memory block can read what it was given: when the memory query delivers an object,
  both properties are strings (as WMI delivers the 64-bit counters of
  \<^verbatim>\<open>Win32_OperatingSystem\<close>).
\<close>

definition mem_readable :: "provider \<Rightarrow> bool" where
  "mem_readable p =
     (case p memQuery of
        ExecOk (NextNoError pClsObj) \<Rightarrow>
          is_bstr (pClsObj ''TotalVisibleMemorySize'') \<and> is_bstr (pClsObj ''FreePhysicalMemory'')
      | _ \<Rightarrow> True)"

text \<open>
  The provider's answers make \<^verbatim>\<open>Update\<close> store a new value for the metric: the
  single-property query returns \<^verbatim>\<open>true\<close>, respectively the memory object has a total
  above 0.
\<close>

definition cpu_sampled :: "provider \<Rightarrow> bool" where
  "cpu_sampled p = fst (GetWmiPropertyValue p cpuQuery ''PercentProcessorTime'' 0)"

definition mem_sampled :: "provider \<Rightarrow> bool" where
  "mem_sampled p =
     (case p memQuery of
        ExecOk (NextNoError pClsObj) \<Rightarrow>
          (case pClsObj ''TotalVisibleMemorySize'' of
             Some (VT_BSTR t) \<Rightarrow> 0 < unat (wtol t)
           | _ \<Rightarrow> False)
      | _ \<Rightarrow> False)"

definition disk_sampled :: "provider \<Rightarrow> bool" where
  "disk_sampled p = fst (GetWmiPropertyValue p diskQuery ''PercentDiskTime'' 0)"

text \<open>None of the five COM calls of \<^verbatim>\<open>Initialize\<close> fails.\<close>

definition all_succeed :: "com_results \<Rightarrow> bool" where
  "all_succeed r =
     (\<not> FAILED (hrCoInitializeEx r) \<and> \<not> FAILED (hrCoInitializeSecurity r) \<and>
      \<not> FAILED (hrCoCreateInstance r) \<and> \<not> FAILED (hrConnectServer r) \<and>
      \<not> FAILED (hrCoSetProxyBlanket r))"

text \<open>The providers seen by the \<^verbatim>\<open>Update\<close> calls of a run, in order.\<close>

fun updates_of :: "op list \<Rightarrow> provider list" where
  "updates_of [] = []"
| "updates_of (OpUpdate p # xs) = p # updates_of xs"
| "updates_of (x # xs) = updates_of xs"

subsection \<open>Example inputs\<close>

text \<open>Two HRESULT codes of the Windows SDK.\<close>

definition S_OK :: HRESULT where
  "S_OK = 0"

definition E_FAIL :: HRESULT where
  "E_FAIL = 0x80004005"

text \<open>
  Every COM call succeeds; the locator is the object at 1, the services proxy the object
  at 2.
\<close>

definition ok_results :: com_results where
  "ok_results =
     \<lparr>hrCoInitializeEx = S_OK, hrCoInitializeSecurity = S_OK, hrCoCreateInstance = S_OK,
      locatorObject = 1, hrConnectServer = S_OK, servicesObject = 2, hrCoSetProxyBlanket = S_OK\<rparr>"

text \<open>\<^verbatim>\<open>ConnectServer\<close> fails after the first three calls succeeded.\<close>

definition connect_fails :: com_results where
  "connect_fails = ok_results\<lparr>hrConnectServer := E_FAIL\<rparr>"

text \<open>
  A query answered by one object that has the single property \<open>n\<close> with variant
  \<open>v\<close>.
\<close>

definition single_property :: "string \<Rightarrow> variant \<Rightarrow> exec_result" where
  "single_property n v = ExecOk (NextNoError (\<lambda>m. if m = n then Some v else None))"

text \<open>The memory query answered by one object with the two counters as text.\<close>

definition memory_record :: "string \<Rightarrow> string \<Rightarrow> exec_result" where
  "memory_record t f =
     ExecOk (NextNoError (\<lambda>m. if m = ''TotalVisibleMemorySize'' then Some (VT_BSTR t)
                               else if m = ''FreePhysicalMemory'' then Some (VT_BSTR f)
                               else None))"

text \<open>A provider from its answers to the CPU, the memory and the disk query.\<close>

definition answers :: "exec_result \<Rightarrow> exec_result \<Rightarrow> exec_result \<Rightarrow> provider" where
  "answers c m d =
     (\<lambda>q. if q = cpuQuery then c else if q = memQuery then m else if q = diskQuery then d
           else ExecFailed)"

text \<open>
  The COM runtime and a monitor after a successful \<^verbatim>\<open>Initialize\<close>; the monitor holds
  the earlier samples 10, 20 and 30.
\<close>

definition connected_env :: com_env where
  "connected_env =
     \<lparr>comInits = 1, refs = (\<lambda>a. if a = 1 \<or> a = 2 then 1 else 0),
      calls = [CallCoInitializeEx, CallCoInitializeSecurity, CallCoCreateInstance,
               CallConnectServer, CallCoSetProxyBlanket]\<rparr>"

definition connected_monitor :: PerformanceMonitor where
  "connected_monitor =
     \<lparr>m_pLocator = Some 1, m_pServices = Some 2, m_cpuLoad = 10, m_memoryUsage = 20,
      m_diskUsage = 30\<rparr>"

text \<open>CPU at 37, a quarter of the memory free, and the disk query fails.\<close>

definition disk_fails :: provider where
  "disk_fails =
     answers (single_property ''PercentProcessorTime'' (VT_BSTR ''37''))
             (memory_record ''16000000'' ''4000000'') ExecFailed"

text \<open>The operating system reports a total memory of 0.\<close>

definition zero_total :: provider where
  "zero_total =
     answers (single_property ''PercentProcessorTime'' (VT_BSTR ''37''))
             (memory_record ''0'' ''4000000'')
             (single_property ''PercentDiskTime'' (VT_BSTR ''5''))"

text \<open>More free memory than total memory is reported.\<close>

definition free_exceeds_total :: provider where
  "free_exceeds_total =
     answers ExecFailed (memory_record ''1000'' ''2000'') ExecFailed"

text \<open>
  The CPU counter arrives as a floating-point variant, the disk counter as a 32-bit
  integer.
\<close>

definition cpu_is_real :: provider where
  "cpu_is_real =
     answers (single_property ''PercentProcessorTime'' (VT_R8 37)) ExecFailed
             (single_property ''PercentDiskTime'' (VT_I4 5))"

text \<open>The CPU counter arrives as the 32-bit integer 250.\<close>

definition cpu_250 :: provider where
  "cpu_250 = answers (single_property ''PercentProcessorTime'' (VT_I4 250)) ExecFailed ExecFailed"

text \<open>
  CPU and disk answer; the memory object delivers \<^verbatim>\<open>TotalVisibleMemorySize\<close> as a null
  variant (\<^verbatim>\<open>Get\<close> succeeds, the property has no value).
\<close>

definition total_is_null :: provider where
  "total_is_null =
     answers (single_property ''PercentProcessorTime'' (VT_BSTR ''37''))
             (ExecOk (NextNoError
                (\<lambda>m. if m = ''TotalVisibleMemorySize'' then Some VT_NULL
                     else if m = ''FreePhysicalMemory'' then Some (VT_BSTR ''4000000'')
                     else None)))
             (single_property ''PercentDiskTime'' (VT_BSTR ''5''))"

text \<open>
  CPU and disk answer; \<^verbatim>\<open>Get\<close> fails for \<^verbatim>\<open>TotalVisibleMemorySize\<close> on the memory object.
\<close>

definition total_is_missing :: provider where
  "total_is_missing =
     answers (single_property ''PercentProcessorTime'' (VT_BSTR ''37''))
             (single_property ''FreePhysicalMemory'' (VT_BSTR ''4000000''))
             (single_property ''PercentDiskTime'' (VT_BSTR ''5''))"


section \<open>Properties\<close>

lemma FAILED_iff_not_SUCCEEDED: "FAILED hr \<longleftrightarrow> \<not> SUCCEEDED hr"
  by (auto simp: FAILED_def SUCCEEDED_def)

lemmas com_defs = CoInitializeEx_def CoUninitialize_def acquire_def Release_def logCall_def

lemmas fixture_defs = S_OK_def E_FAIL_def ok_results_def single_property_def memory_record_def
  answers_def connected_env_def connected_monitor_def cpuQuery_def memQuery_def diskQuery_def

lemmas wtol_eval = wtol_def wtol_long_def clamp_long_def is_space_def is_digit_def

subsection \<open>The history buffer\<close>

lemma pushes_Nil: "pushes [] = HistoryBuffer_init"
  by (simp add: pushes_def)

lemma pushes_snoc: "pushes (vs @ [v]) = Push (pushes vs) v"
  by (simp add: pushes_def)

lemma length_cpuHistory_pushes: "length (cpuHistory (pushes vs)) = 90"
  by (induction vs rule: rev_induct)
     (simp_all add: pushes_Nil pushes_snoc HistoryBuffer_init_def Push_def)

lemma historyIndex_pushes: "historyIndex (pushes vs) = length vs mod 90"
proof (induction vs rule: rev_induct)
  case Nil
  show ?case by (simp add: pushes_Nil HistoryBuffer_init_def)
next
  case (snoc v vs)
  have "historyIndex (pushes (vs @ [v])) = (length vs mod 90 + 1) mod 90"
    by (simp add: pushes_snoc Push_def snoc.IH)
  also have "\<dots> = length (vs @ [v]) mod 90"
    by (simp add: mod_Suc_eq)
  finally show ?case .
qed

lemma filled_pushes: "filled (pushes vs) \<longleftrightarrow> 90 \<le> length vs"
proof (induction vs rule: rev_induct)
  case Nil
  show ?case by (simp add: pushes_Nil HistoryBuffer_init_def)
next
  case (snoc v vs)
  have "filled (pushes (vs @ [v])) \<longleftrightarrow> length vs mod 90 = 89 \<or> 90 \<le> length vs"
    by (simp add: pushes_snoc Push_def snoc.IH historyIndex_pushes)
  also have "\<dots> \<longleftrightarrow> 90 \<le> length (vs @ [v])"
    by (simp) presburger
  finally show ?case .
qed

lemma PlotLines_rotate:
  "PlotLines xs (length xs) off = rotate off xs"
  by (rule nth_equalityI) (simp_all add: PlotLines_def nth_rotate add.commute)

lemma PlotLines_drop_take:
  assumes "off < length xs"
  shows "PlotLines xs (length xs) off = drop off xs @ take off xs"
  using assms by (simp add: PlotLines_rotate rotate_drop_take)

lemma SnapshotOrdered_unfilled:
  "length vs < 90 \<Longrightarrow> SnapshotOrdered (pushes vs) = cpuHistory (pushes vs)"
  using PlotLines_drop_take [of 0 "cpuHistory (pushes vs)"]
  by (simp add: SnapshotOrdered_def filled_pushes length_cpuHistory_pushes)

lemma SnapshotOrdered_filled:
  "90 \<le> length vs \<Longrightarrow>
     SnapshotOrdered (pushes vs) =
       drop (historyIndex (pushes vs)) (cpuHistory (pushes vs)) @
       take (historyIndex (pushes vs)) (cpuHistory (pushes vs))"
  using PlotLines_drop_take [of "historyIndex (pushes vs)" "cpuHistory (pushes vs)"]
  by (simp add: SnapshotOrdered_def filled_pushes length_cpuHistory_pushes historyIndex_pushes)

text \<open>Before the 90th sample the array is the samples so far followed by the untouched zeros.\<close>

lemma cpuHistory_pushes_prefix:
  "length vs \<le> 90 \<Longrightarrow> cpuHistory (pushes vs) = vs @ replicate (90 - length vs) 0"
proof (induction vs rule: rev_induct)
  case Nil
  show ?case by (simp add: pushes_Nil HistoryBuffer_init_def)
next
  case (snoc v vs)
  then have n: "length vs < 90" by simp
  then have ih: "cpuHistory (pushes vs) = vs @ replicate (90 - length vs) 0"
    using snoc.IH by simp
  from n obtain k where k: "90 - length vs = Suc k"
    by (metis Suc_diff_Suc)
  then have k': "90 - length (vs @ [v]) = k" by simp
  have "cpuHistory (pushes (vs @ [v])) = (vs @ replicate (Suc k) 0)[length vs := v]"
    using n by (simp add: pushes_snoc Push_def ih historyIndex_pushes k)
  also have "\<dots> = vs @ [v] @ replicate k 0"
    by (simp add: list_update_append)
  finally show ?case using k' by simp
qed

text \<open>One more sample moves the chronological window by one.\<close>

lemma window_step:
  assumes i: "i < length xs"
  shows "drop ((i + 1) mod length xs) (xs[i := v]) @ take ((i + 1) mod length xs) (xs[i := v]) =
         tl (drop i xs @ take i xs) @ [v]"
proof (cases "i + 1 < length xs")
  case True
  then have "drop (i + 1) (xs[i := v]) = drop (i + 1) xs"
    by simp
  moreover have "take (i + 1) (xs[i := v]) = take i xs @ [v]"
    using i by (simp add: take_Suc_conv_app_nth)
  moreover have "tl (drop i xs @ take i xs) = drop (i + 1) xs @ take i xs"
    using i by (simp add: drop_Suc tl_drop)
  ultimately show ?thesis using True by simp
next
  case False
  with i have e: "i + 1 = length xs" by simp
  then have d: "drop i xs = [xs ! i]"
    by (metis Cons_nth_drop_Suc Suc_eq_plus1 drop_all i le_refl)
  have "xs[i := v] = take i xs @ [v]"
    using e i by (metis Suc_eq_plus1 append_Nil2 drop_all le_refl upd_conv_take_nth_drop)
  then show ?thesis using e d by simp
qed

lemma window_pushes:
  "90 \<le> length vs \<Longrightarrow>
     drop (historyIndex (pushes vs)) (cpuHistory (pushes vs)) @
     take (historyIndex (pushes vs)) (cpuHistory (pushes vs)) = drop (length vs - 90) vs"
proof (induction vs rule: rev_induct)
  case Nil
  then show ?case by simp
next
  case (snoc v vs)
  let ?h = "pushes vs"
  have len: "length (cpuHistory ?h) = 90" by (rule length_cpuHistory_pushes)
  have idx: "historyIndex ?h < length (cpuHistory ?h)"
    by (simp add: len historyIndex_pushes)
  have st: "drop (historyIndex (pushes (vs @ [v]))) (cpuHistory (pushes (vs @ [v]))) @
        take (historyIndex (pushes (vs @ [v]))) (cpuHistory (pushes (vs @ [v]))) =
        tl (drop (historyIndex ?h) (cpuHistory ?h) @ take (historyIndex ?h) (cpuHistory ?h)) @ [v]"
    using window_step [OF idx, of v] by (simp add: pushes_snoc Push_def len)
  show ?case
  proof (cases "90 \<le> length vs")
    case True
    then have "drop (historyIndex ?h) (cpuHistory ?h) @ take (historyIndex ?h) (cpuHistory ?h)
        = drop (length vs - 90) vs"
      by (rule snoc.IH)
    moreover have "length vs - 89 = Suc (length vs - 90)"
      using True by simp
    moreover have "tl (drop (length vs - 90) vs) = drop (Suc (length vs - 90)) vs"
      by (simp add: drop_Suc tl_drop)
    moreover have "length (vs @ [v]) - 90 = length vs - 89"
      by simp
    ultimately show ?thesis using True st by simp
  next
    case False
    with snoc.prems have l: "length vs = 89" by simp
    then have "cpuHistory ?h = vs @ [0]"
      using cpuHistory_pushes_prefix [of vs] by simp
    moreover have "historyIndex ?h = 89" by (simp add: historyIndex_pushes l)
    ultimately show ?thesis using st l by simp
  qed
qed

text \<open>
  Claim C5. After any number of samples, the next sample is written at the current
  \<^verbatim>\<open>historyIndex\<close> (which lies inside the 90-slot array), the index advances to
  \<open>(historyIndex + 1) mod 90\<close> and stays below 90, the index is the number of samples
  modulo 90, \<^verbatim>\<open>filled\<close> holds exactly from the 90th sample on, and a sample sets it exactly
  when the index wraps to 0.
\<close>

theorem push_writes_advances_fills:
  "cpuHistory (Push (pushes vs) v) = (cpuHistory (pushes vs))[historyIndex (pushes vs) := v]
   \<and> historyIndex (pushes vs) < length (cpuHistory (pushes vs))
   \<and> cpuHistory (Push (pushes vs) v) ! historyIndex (pushes vs) = v
   \<and> historyIndex (Push (pushes vs) v) = (historyIndex (pushes vs) + 1) mod 90
   \<and> historyIndex (pushes vs) < 90
   \<and> historyIndex (pushes vs) = length vs mod 90
   \<and> filled (pushes vs) = (90 \<le> length vs)
   \<and> filled (Push (pushes vs) v) = (filled (pushes vs) \<or> historyIndex (Push (pushes vs) v) = 0)"
proof -
  have len: "length (cpuHistory (pushes vs)) = 90" by (rule length_cpuHistory_pushes)
  have idx: "historyIndex (pushes vs) < 90" by (simp add: historyIndex_pushes)
  have wrap: "((historyIndex (pushes vs) + 1) mod 90 = 0) = (historyIndex (pushes vs) = 89)"
    using idx by presburger
  have "filled (Push (pushes vs) v) = (filled (pushes vs) \<or> historyIndex (pushes vs) = 89)"
    by (auto simp: Push_def)
  then have f: "filled (Push (pushes vs) v) = (filled (pushes vs) \<or> historyIndex (Push (pushes vs) v) = 0)"
    using wrap by (simp add: Push_def)
  show ?thesis
    using len idx f
    by (simp add: Push_def historyIndex_pushes filled_pushes)
qed

text \<open>
  Claim C1, as amended. After 90 or more samples the plotted sequence is the last 90
  samples in the order they arrived: its length is \<open>min (length vs) 90 = 90\<close>, its last
  element is the latest sample, and it is the rotation of the array that starts at
  \<^verbatim>\<open>historyIndex\<close>. Before the 90th sample the plotted sequence is the whole 90-slot array:
  the samples so far, oldest first, followed by the slots that still hold 0.
\<close>

theorem snapshot_chronological:
  "(90 \<le> length vs \<longrightarrow>
      SnapshotOrdered (pushes vs) = drop (length vs - 90) vs
      \<and> length (SnapshotOrdered (pushes vs)) = min (length vs) 90
      \<and> last (SnapshotOrdered (pushes vs)) = last vs
      \<and> SnapshotOrdered (pushes vs) =
          drop (historyIndex (pushes vs)) (cpuHistory (pushes vs)) @
          take (historyIndex (pushes vs)) (cpuHistory (pushes vs)))
   \<and> (length vs < 90 \<longrightarrow>
      SnapshotOrdered (pushes vs) = cpuHistory (pushes vs)
      \<and> SnapshotOrdered (pushes vs) = vs @ replicate (90 - length vs) 0
      \<and> take (historyIndex (pushes vs)) (SnapshotOrdered (pushes vs)) = vs)"
proof (intro conjI impI)
  assume ge: "90 \<le> length vs"
  show w: "SnapshotOrdered (pushes vs) = drop (length vs - 90) vs"
    using ge by (simp add: SnapshotOrdered_filled window_pushes)
  show "length (SnapshotOrdered (pushes vs)) = min (length vs) 90"
    using ge by (simp add: w)
  show "last (SnapshotOrdered (pushes vs)) = last vs"
    using ge by (simp add: w)
  show "SnapshotOrdered (pushes vs) =
          drop (historyIndex (pushes vs)) (cpuHistory (pushes vs)) @
          take (historyIndex (pushes vs)) (cpuHistory (pushes vs))"
    using ge by (rule SnapshotOrdered_filled)
next
  assume lt: "length vs < 90"
  show "SnapshotOrdered (pushes vs) = cpuHistory (pushes vs)"
    using lt by (rule SnapshotOrdered_unfilled)
  show p: "SnapshotOrdered (pushes vs) = vs @ replicate (90 - length vs) 0"
    using lt by (simp add: SnapshotOrdered_unfilled cpuHistory_pushes_prefix)
  show "take (historyIndex (pushes vs)) (SnapshotOrdered (pushes vs)) = vs"
    using lt by (simp add: p historyIndex_pushes)
qed

text \<open>
  Witness for C1: 92 samples, and 3 samples.
\<close>

theorem snapshot_chronological_witness:
  "90 \<le> length (replicate 90 (1::real) @ [2, 3])
   \<and> SnapshotOrdered (pushes (replicate 90 1 @ [2, 3])) = replicate 88 1 @ [2, 3]
   \<and> last (SnapshotOrdered (pushes (replicate 90 1 @ [2, 3]))) = 3
   \<and> length [10, 20, 30 :: real] < 90
   \<and> SnapshotOrdered (pushes [10, 20, 30]) = [10, 20, 30] @ replicate 87 0"
proof -
  have long: "90 \<le> length (replicate 90 (1::real) @ [2, 3])" by simp
  have short: "length [10, 20, 30 :: real] < 90" by simp
  have "SnapshotOrdered (pushes (replicate 90 1 @ [2, 3])) =
          drop (length (replicate 90 (1::real) @ [2, 3]) - 90) (replicate 90 1 @ [2, 3])"
    and "last (SnapshotOrdered (pushes (replicate 90 1 @ [2, 3]))) = last (replicate 90 (1::real) @ [2, 3])"
    using snapshot_chronological [of "replicate 90 1 @ [2, 3]"] long by blast+
  moreover have "SnapshotOrdered (pushes [10, 20, 30]) =
          [10, 20, 30] @ replicate (90 - length [10, 20, 30 :: real]) 0"
    using snapshot_chronological [of "[10, 20, 30]"] short by blast
  ultimately show ?thesis by simp
qed

text \<open>
  Counterexample for C1 as stated: after one sample the buffer is not filled, and the
  plotted sequence (90 values) is not \<open>storage[0..writeIndex)\<close> (one value).
\<close>

theorem snapshot_prefill_counterexample:
  "\<not> filled (pushes [5])
   \<and> SnapshotOrdered (pushes [5]) \<noteq> take (historyIndex (pushes [5])) (cpuHistory (pushes [5]))"
proof -
  have "length (SnapshotOrdered (pushes [5])) = 90"
    by (simp add: SnapshotOrdered_unfilled length_cpuHistory_pushes)
  moreover have "length (take (historyIndex (pushes [5])) (cpuHistory (pushes [5]))) = 1"
    by (simp add: historyIndex_pushes length_cpuHistory_pushes)
  ultimately have "SnapshotOrdered (pushes [5]) \<noteq> take (historyIndex (pushes [5])) (cpuHistory (pushes [5]))"
    by (metis num.distinct(1) one_eq_numeral_iff)
  then show ?thesis by (simp add: filled_pushes)
qed

subsection \<open>Queries and \<^verbatim>\<open>Update\<close>\<close>

lemma read_bstrVal_simps [simp]:
  "read_bstrVal (Some (VT_BSTR b)) = Inr b"
  "read_bstrVal None = Inl BadVariantRead"
  by (simp_all add: read_bstrVal_def)

lemma read_bstrVal_Inr: "read_bstrVal g = Inr b \<longleftrightarrow> g = Some (VT_BSTR b)"
  by (auto simp: read_bstrVal_def split: option.splits variant.splits)

lemma is_bstr_iff: "is_bstr g \<longleftrightarrow> (\<exists>b. g = Some (VT_BSTR b))"
  by (auto simp: is_bstr_def split: option.splits variant.splits)

lemma GetWmiPropertyValue_True_iff:
  "GetWmiPropertyValue p q n val = (True, v) \<longleftrightarrow>
     (\<exists>pClsObj. p q = ExecOk (NextNoError pClsObj) \<and>
        ((\<exists>b. pClsObj n = Some (VT_BSTR b) \<and> v = wtol b) \<or> pClsObj n = Some (VT_I4 v)))"
  by (auto simp: GetWmiPropertyValue_def
      split: exec_result.splits next_result.splits option.splits variant.splits)

lemma GetWmiPropertyValue_False:
  "fst (GetWmiPropertyValue p q n val) = False \<Longrightarrow> snd (GetWmiPropertyValue p q n val) = val"
  by (auto simp: GetWmiPropertyValue_def
      split: exec_result.splits next_result.splits option.splits variant.splits)

lemma Update_not_held: "m_pServices s = None \<Longrightarrow> Update p env s = Inr s"
  by (simp add: Update_def)

text \<open>Update returns whenever the proxy is held and the memory answer is readable.\<close>

lemma Update_total:
  assumes "m_pServices s = Some svc" "refs env svc \<noteq> 0" "mem_readable p"
  shows "\<exists>s'. Update p env s = Inr s'"
  using assms
  by (auto simp: Update_def mem_readable_def is_bstr_iff Let_def
      split: prod.splits exec_result.splits next_result.splits sum.splits)

lemma Update_cpu:
  assumes "Update p env s = Inr s'" "m_pServices s \<noteq> None"
  shows "m_cpuLoad s' =
     (if fst (GetWmiPropertyValue p cpuQuery ''PercentProcessorTime'' 0)
      then to_float (snd (GetWmiPropertyValue p cpuQuery ''PercentProcessorTime'' 0))
      else m_cpuLoad s)"
  using assms
  by (auto simp: Update_def Let_def
      split: option.splits if_splits prod.splits exec_result.splits next_result.splits sum.splits)

lemma Update_disk:
  assumes "Update p env s = Inr s'" "m_pServices s \<noteq> None"
  shows "m_diskUsage s' =
     (if fst (GetWmiPropertyValue p diskQuery ''PercentDiskTime'' 0)
      then to_float (snd (GetWmiPropertyValue p diskQuery ''PercentDiskTime'' 0))
      else m_diskUsage s)"
  using assms
  by (auto simp: Update_def Let_def
      split: option.splits if_splits prod.splits exec_result.splits next_result.splits sum.splits)

lemma Update_mem_no_record:
  assumes "Update p env s = Inr s'" "p memQuery = ExecFailed \<or> p memQuery = ExecOk NextOther"
  shows "m_memoryUsage s' = m_memoryUsage s"
  using assms
  by (auto simp: Update_def Let_def
      split: option.splits if_splits prod.splits exec_result.splits next_result.splits sum.splits)

lemma Update_mem_record:
  assumes "Update p env s = Inr s'" "m_pServices s \<noteq> None"
    "p memQuery = ExecOk (NextNoError pClsObj)"
    "pClsObj ''TotalVisibleMemorySize'' = Some (VT_BSTR t)"
    "pClsObj ''FreePhysicalMemory'' = Some (VT_BSTR f)"
  shows "m_memoryUsage s' =
     (if 0 < unat (wtol t) then to_float (wtol t - wtol f) / to_float (wtol t) * 100
      else m_memoryUsage s)"
  using assms
  by (auto simp: Update_def Let_def
      split: option.splits if_splits prod.splits exec_result.splits next_result.splits sum.splits)

lemma Update_pointers:
  assumes "Update p env s = Inr s'"
  shows "m_pServices s' = m_pServices s \<and> m_pLocator s' = m_pLocator s"
  using assms
  by (auto simp: Update_def Let_def
      split: option.splits if_splits prod.splits exec_result.splits next_result.splits sum.splits)

subsection \<open>\<^verbatim>\<open>Initialize\<close> and \<^verbatim>\<open>Shutdown\<close>\<close>

lemma Initialize_fail1:
  "FAILED (hrCoInitializeEx r) \<Longrightarrow>
   Initialize r env s = Inr (False, env\<lparr>calls := calls env @ [CallCoInitializeEx]\<rparr>, s)"
  by (simp add: Initialize_def com_defs)

lemma Initialize_fail2:
  "\<not> FAILED (hrCoInitializeEx r) \<Longrightarrow> FAILED (hrCoInitializeSecurity r) \<Longrightarrow>
   Initialize r env s =
     Inr (False,
          env\<lparr>calls := calls env @ [CallCoInitializeEx, CallCoInitializeSecurity, CallCoUninitialize]\<rparr>,
          s)"
  by (simp add: Initialize_def com_defs)

lemma Initialize_fail3:
  "\<not> FAILED (hrCoInitializeEx r) \<Longrightarrow> \<not> FAILED (hrCoInitializeSecurity r) \<Longrightarrow>
   FAILED (hrCoCreateInstance r) \<Longrightarrow>
   Initialize r env s =
     Inr (False,
          env\<lparr>calls := calls env @
             [CallCoInitializeEx, CallCoInitializeSecurity, CallCoCreateInstance, CallCoUninitialize]\<rparr>,
          s\<lparr>m_pLocator := None\<rparr>)"
  by (simp add: Initialize_def com_defs)

lemma Initialize_fail4:
  "\<not> FAILED (hrCoInitializeEx r) \<Longrightarrow> \<not> FAILED (hrCoInitializeSecurity r) \<Longrightarrow>
   \<not> FAILED (hrCoCreateInstance r) \<Longrightarrow> FAILED (hrConnectServer r) \<Longrightarrow>
   Initialize r env s =
     Inr (False,
          env\<lparr>calls := calls env @
             [CallCoInitializeEx, CallCoInitializeSecurity, CallCoCreateInstance, CallConnectServer,
              CallRelease (locatorObject r), CallCoUninitialize]\<rparr>,
          s\<lparr>m_pLocator := Some (locatorObject r), m_pServices := None\<rparr>)"
  by (simp add: Initialize_def com_defs)

lemma Initialize_fail5:
  "\<not> FAILED (hrCoInitializeEx r) \<Longrightarrow> \<not> FAILED (hrCoInitializeSecurity r) \<Longrightarrow>
   \<not> FAILED (hrCoCreateInstance r) \<Longrightarrow> \<not> FAILED (hrConnectServer r) \<Longrightarrow>
   FAILED (hrCoSetProxyBlanket r) \<Longrightarrow>
   Initialize r env s =
     Inr (False,
          env\<lparr>calls := calls env @
             [CallCoInitializeEx, CallCoInitializeSecurity, CallCoCreateInstance, CallConnectServer,
              CallCoSetProxyBlanket, CallRelease (servicesObject r), CallRelease (locatorObject r),
              CallCoUninitialize]\<rparr>,
          s\<lparr>m_pLocator := Some (locatorObject r), m_pServices := Some (servicesObject r)\<rparr>)"
  by (cases "servicesObject r = locatorObject r") (simp_all add: Initialize_def com_defs fun_upd_twist)

lemma Initialize_ok:
  "all_succeed r \<Longrightarrow>
   Initialize r env s =
     Inr (True,
          env\<lparr>comInits := comInits env + 1,
              refs := (refs env)
                (locatorObject r := refs env (locatorObject r) + 1,
                 servicesObject r :=
                   ((refs env)(locatorObject r := refs env (locatorObject r) + 1)) (servicesObject r) + 1),
              calls := calls env @
                [CallCoInitializeEx, CallCoInitializeSecurity, CallCoCreateInstance, CallConnectServer,
                 CallCoSetProxyBlanket]\<rparr>,
          s\<lparr>m_pLocator := Some (locatorObject r), m_pServices := Some (servicesObject r)\<rparr>)"
  by (simp add: Initialize_def com_defs all_succeed_def)

lemma Initialize_values:
  "Initialize r env s = Inr (ok, env', s') \<Longrightarrow>
   m_cpuLoad s' = m_cpuLoad s \<and> m_memoryUsage s' = m_memoryUsage s \<and> m_diskUsage s' = m_diskUsage s"
  by (auto simp: Initialize_def com_defs Let_def split: if_splits prod.splits sum.splits)

lemma Shutdown_values:
  "Shutdown env s = Inr (env', s') \<Longrightarrow>
   m_cpuLoad s' = m_cpuLoad s \<and> m_memoryUsage s' = m_memoryUsage s \<and> m_diskUsage s' = m_diskUsage s"
  by (auto simp: Shutdown_def split: option.splits sum.splits prod.splits)

lemma Shutdown_clears:
  "Shutdown env s = Inr (env', s') \<Longrightarrow> m_pServices s' = None \<and> m_pLocator s' = None"
  by (auto simp: Shutdown_def split: option.splits sum.splits prod.splits)

text \<open>A second Shutdown releases nothing and leaves the object as it is.\<close>

lemma Shutdown_twice:
  "Shutdown env s = Inr (env', s') \<Longrightarrow> Shutdown env' s' = Inr (CoUninitialize env', s')"
  by (auto simp: Shutdown_def split: option.splits sum.splits prod.splits)

subsection \<open>Partial failure of one refresh\<close>

text \<open>
  With the services proxy held and a readable memory answer, \<^verbatim>\<open>Update\<close> returns,
  and each metric of the new state depends on its own query only: a CPU (disk) query that
  succeeds with \<open>c\<close> (\<open>d\<close>) stores \<open>c\<close> (\<open>d\<close>), one that fails leaves the CPU (disk) value
  as it was; a memory object with a total above 0 stores the percentage, a memory query
  that fails or delivers no object leaves the memory value as it was. In particular, when
  the disk query fails and the other two succeed, CPU and memory are updated and the disk
  value is the one before the call.
\<close>

lemma Update_isolates_readable:
  assumes "m_pServices s = Some svc" and "refs env svc \<noteq> 0" and "mem_readable p"
  shows "\<exists>s'. Update p env s = Inr s' \<and>
      (GetWmiPropertyValue p cpuQuery ''PercentProcessorTime'' 0 = (True, c)
         \<longrightarrow> m_cpuLoad s' = to_float c) \<and>
      (fst (GetWmiPropertyValue p cpuQuery ''PercentProcessorTime'' 0) = False
         \<longrightarrow> m_cpuLoad s' = m_cpuLoad s) \<and>
      (p memQuery = ExecOk (NextNoError pClsObj) \<and>
       pClsObj ''TotalVisibleMemorySize'' = Some (VT_BSTR t) \<and>
       pClsObj ''FreePhysicalMemory'' = Some (VT_BSTR f) \<and> 0 < unat (wtol t)
         \<longrightarrow> m_memoryUsage s' = to_float (wtol t - wtol f) / to_float (wtol t) * 100) \<and>
      (p memQuery = ExecFailed \<or> p memQuery = ExecOk NextOther
         \<longrightarrow> m_memoryUsage s' = m_memoryUsage s) \<and>
      (GetWmiPropertyValue p diskQuery ''PercentDiskTime'' 0 = (True, d)
         \<longrightarrow> m_diskUsage s' = to_float d) \<and>
      (fst (GetWmiPropertyValue p diskQuery ''PercentDiskTime'' 0) = False
         \<longrightarrow> m_diskUsage s' = m_diskUsage s)"
proof -
  obtain s' where u: "Update p env s = Inr s'"
    using Update_total [OF assms] by blast
  have held: "m_pServices s \<noteq> None" using assms(1) by simp
  have "GetWmiPropertyValue p cpuQuery ''PercentProcessorTime'' 0 = (True, c)
         \<longrightarrow> m_cpuLoad s' = to_float c"
    using Update_cpu [OF u held] by auto
  moreover have "fst (GetWmiPropertyValue p cpuQuery ''PercentProcessorTime'' 0) = False
         \<longrightarrow> m_cpuLoad s' = m_cpuLoad s"
    using Update_cpu [OF u held] by auto
  moreover have "p memQuery = ExecOk (NextNoError pClsObj) \<and>
       pClsObj ''TotalVisibleMemorySize'' = Some (VT_BSTR t) \<and>
       pClsObj ''FreePhysicalMemory'' = Some (VT_BSTR f) \<and> 0 < unat (wtol t)
         \<longrightarrow> m_memoryUsage s' = to_float (wtol t - wtol f) / to_float (wtol t) * 100"
    using Update_mem_record [OF u held] by auto
  moreover have "p memQuery = ExecFailed \<or> p memQuery = ExecOk NextOther
         \<longrightarrow> m_memoryUsage s' = m_memoryUsage s"
    using Update_mem_no_record [OF u] by blast
  moreover have "GetWmiPropertyValue p diskQuery ''PercentDiskTime'' 0 = (True, d)
         \<longrightarrow> m_diskUsage s' = to_float d"
    using Update_disk [OF u held] by auto
  moreover have "fst (GetWmiPropertyValue p diskQuery ''PercentDiskTime'' 0) = False
         \<longrightarrow> m_diskUsage s' = m_diskUsage s"
    using Update_disk [OF u held] by auto
  ultimately show ?thesis using u by blast
qed

lemma cpu_is_real_outcomes:
  "GetWmiPropertyValue cpu_is_real cpuQuery ''PercentProcessorTime'' 0 = (False, 0)"
  "cpu_is_real memQuery = ExecFailed"
  "GetWmiPropertyValue cpu_is_real diskQuery ''PercentDiskTime'' 0 = (True, 5)"
  by (simp_all add: GetWmiPropertyValue_def cpu_is_real_def fixture_defs)

lemma connected_held:
  "m_pServices connected_monitor = Some 2" "refs connected_env 2 \<noteq> 0"
  by (simp_all add: connected_monitor_def connected_env_def)

lemma Update_cpu_is_real:
  "Update cpu_is_real connected_env connected_monitor = Inr (connected_monitor\<lparr>m_diskUsage := 5\<rparr>)"
  by (simp add: Update_def cpu_is_real_outcomes connected_held to_float_def)

lemma disk_fails_cpu:
  "GetWmiPropertyValue disk_fails cpuQuery ''PercentProcessorTime'' 0 = (True, 37)"
  by (simp add: disk_fails_def GetWmiPropertyValue_def fixture_defs wtol_eval)

lemma disk_fails_disk:
  "fst (GetWmiPropertyValue disk_fails diskQuery ''PercentDiskTime'' 0) = False"
  by (simp add: disk_fails_def GetWmiPropertyValue_def fixture_defs)

lemma disk_fails_mem:
  "disk_fails memQuery = memory_record ''16000000'' ''4000000''"
  by (simp add: disk_fails_def fixture_defs)

lemma wtol_16000000: "wtol ''16000000'' = 16000000"
  by (simp add: wtol_eval)

lemma wtol_4000000: "wtol ''4000000'' = 4000000"
  by (simp add: wtol_eval)

text \<open>
  Two refreshes with a readable memory answer: the disk query fails, CPU reads 37 and memory
  75 percent, the disk value stays at 30; and the CPU and memory queries fail, the disk
  reads 5.
\<close>

lemma Update_isolates_readable_examples:
  "(\<exists>s'. Update disk_fails connected_env connected_monitor = Inr s' \<and>
        m_cpuLoad s' = 37 \<and> m_memoryUsage s' = 75 \<and> m_diskUsage s' = m_diskUsage connected_monitor)
   \<and> (\<exists>s'. Update cpu_is_real connected_env connected_monitor = Inr s' \<and>
        m_cpuLoad s' = m_cpuLoad connected_monitor \<and>
        m_memoryUsage s' = m_memoryUsage connected_monitor \<and> m_diskUsage s' = 5)"
proof -
  have a: "m_pServices connected_monitor = Some 2" by (simp add: connected_monitor_def)
  have b: "refs connected_env 2 \<noteq> 0" by (simp add: connected_env_def)
  have c: "mem_readable disk_fails"
    by (simp add: mem_readable_def disk_fails_mem memory_record_def is_bstr_def)
  have m: "disk_fails memQuery =
      ExecOk (NextNoError (\<lambda>m. if m = ''TotalVisibleMemorySize'' then Some (VT_BSTR ''16000000'')
                               else if m = ''FreePhysicalMemory'' then Some (VT_BSTR ''4000000'')
                               else None))"
    by (simp add: disk_fails_mem memory_record_def)
  have pct: "to_float (wtol ''16000000'' - wtol ''4000000'') / to_float (wtol ''16000000'') * 100 = 75"
    by (simp add: wtol_16000000 wtol_4000000 to_float_def)
  have tot: "0 < unat (wtol ''16000000'')" by (simp add: wtol_16000000)
  have first: "\<exists>s'. Update disk_fails connected_env connected_monitor = Inr s' \<and>
        m_cpuLoad s' = 37 \<and> m_memoryUsage s' = 75 \<and> m_diskUsage s' = m_diskUsage connected_monitor"
    using Update_isolates_readable [OF a b c, where c = 37 and t = "''16000000''" and f = "''4000000''"
        and pClsObj = "\<lambda>m. if m = ''TotalVisibleMemorySize'' then Some (VT_BSTR ''16000000'')
                               else if m = ''FreePhysicalMemory'' then Some (VT_BSTR ''4000000'')
                               else None"]
      disk_fails_cpu disk_fails_disk m pct tot
    by (auto simp: to_float_def)
  have c2: "mem_readable cpu_is_real"
    by (simp add: mem_readable_def cpu_is_real_outcomes)
  have second: "\<exists>s'. Update cpu_is_real connected_env connected_monitor = Inr s' \<and>
        m_cpuLoad s' = m_cpuLoad connected_monitor \<and>
        m_memoryUsage s' = m_memoryUsage connected_monitor \<and> m_diskUsage s' = 5"
    using Update_isolates_readable [OF a b c2, where d = 5] cpu_is_real_outcomes
    by (auto simp: to_float_def)
  show ?thesis using first second by blast
qed

text \<open>
  Claim C2 at the failing input. The CPU and the disk query both succeed, and the memory
  query delivers an object whose \<^verbatim>\<open>TotalVisibleMemorySize\<close> is not a string (a null
  variant, or \<^verbatim>\<open>Get\<close> fails). The memory block reads \<^verbatim>\<open>vtProp.bstrVal\<close> all the same,
  which is undefined: \<^verbatim>\<open>Update\<close> does not return a state, and the disk value that the
  disk query would have delivered is not stored.
\<close>

theorem unreadable_memory_counter_stops_update:
  "GetWmiPropertyValue total_is_null cpuQuery ''PercentProcessorTime'' 0 = (True, 37)
   \<and> GetWmiPropertyValue total_is_null diskQuery ''PercentDiskTime'' 0 = (True, 5)
   \<and> Update total_is_null connected_env connected_monitor = Inl BadVariantRead
   \<and> GetWmiPropertyValue total_is_missing cpuQuery ''PercentProcessorTime'' 0 = (True, 37)
   \<and> GetWmiPropertyValue total_is_missing diskQuery ''PercentDiskTime'' 0 = (True, 5)
   \<and> Update total_is_missing connected_env connected_monitor = Inl BadVariantRead"
proof -
  have w: "wtol ''37'' = 37" "wtol ''5'' = 5"
    by (simp_all add: wtol_eval)
  have n: "GetWmiPropertyValue total_is_null cpuQuery ''PercentProcessorTime'' 0 = (True, 37)"
    "GetWmiPropertyValue total_is_null diskQuery ''PercentDiskTime'' 0 = (True, 5)"
    by (simp_all add: GetWmiPropertyValue_def total_is_null_def fixture_defs w)
  have nm: "total_is_null memQuery =
      ExecOk (NextNoError
        (\<lambda>m. if m = ''TotalVisibleMemorySize'' then Some VT_NULL
             else if m = ''FreePhysicalMemory'' then Some (VT_BSTR ''4000000'')
             else None))"
    by (simp add: total_is_null_def fixture_defs)
  have nu: "Update total_is_null connected_env connected_monitor = Inl BadVariantRead"
    by (simp add: Update_def n nm connected_held read_bstrVal_def)
  have g: "GetWmiPropertyValue total_is_missing cpuQuery ''PercentProcessorTime'' 0 = (True, 37)"
    "GetWmiPropertyValue total_is_missing diskQuery ''PercentDiskTime'' 0 = (True, 5)"
    by (simp_all add: GetWmiPropertyValue_def total_is_missing_def fixture_defs w)
  have gm: "total_is_missing memQuery =
      ExecOk (NextNoError (\<lambda>m. if m = ''FreePhysicalMemory'' then Some (VT_BSTR ''4000000'') else None))"
    by (simp add: total_is_missing_def fixture_defs)
  have gu: "Update total_is_missing connected_env connected_monitor = Inl BadVariantRead"
    by (simp add: Update_def g gm connected_held)
  show ?thesis using n nu g gu by blast
qed

subsection \<open>The connection chain\<close>

lemma FAILED_E_FAIL: "FAILED E_FAIL"
  by (simp add: FAILED_def E_FAIL_def)

lemma not_FAILED_S_OK: "\<not> FAILED S_OK"
  by (simp add: FAILED_def S_OK_def)

text \<open>
  Claim C3. \<^verbatim>\<open>Initialize\<close> always returns, and returns \<^verbatim>\<open>true\<close> exactly when all five calls
  succeed. The calls are made in the order library initialisation, security, locator,
  connection, proxy security, and stop at the first failure; after a failure at any step
  the objects acquired by the earlier steps are released (services before locator) and the
  library is uninitialised, so that the count of COM initialisations and every reference
  count are what they were before the call.
\<close>

theorem initialize_unwinds_in_order:
  "\<exists>ok env' s'. Initialize r env s = Inr (ok, env', s')
     \<and> ok = all_succeed r
     \<and> (\<not> ok \<longrightarrow> comInits env' = comInits env \<and> refs env' = refs env)
     \<and> (FAILED (hrCoInitializeEx r) \<longrightarrow>
          calls env' = calls env @ [CallCoInitializeEx])
     \<and> (\<not> FAILED (hrCoInitializeEx r) \<and> FAILED (hrCoInitializeSecurity r) \<longrightarrow>
          calls env' = calls env @
            [CallCoInitializeEx, CallCoInitializeSecurity, CallCoUninitialize])
     \<and> (\<not> FAILED (hrCoInitializeEx r) \<and> \<not> FAILED (hrCoInitializeSecurity r) \<and>
        FAILED (hrCoCreateInstance r) \<longrightarrow>
          calls env' = calls env @
            [CallCoInitializeEx, CallCoInitializeSecurity, CallCoCreateInstance,
             CallCoUninitialize])
     \<and> (\<not> FAILED (hrCoInitializeEx r) \<and> \<not> FAILED (hrCoInitializeSecurity r) \<and>
        \<not> FAILED (hrCoCreateInstance r) \<and> FAILED (hrConnectServer r) \<longrightarrow>
          calls env' = calls env @
            [CallCoInitializeEx, CallCoInitializeSecurity, CallCoCreateInstance,
             CallConnectServer, CallRelease (locatorObject r), CallCoUninitialize])
     \<and> (\<not> FAILED (hrCoInitializeEx r) \<and> \<not> FAILED (hrCoInitializeSecurity r) \<and>
        \<not> FAILED (hrCoCreateInstance r) \<and> \<not> FAILED (hrConnectServer r) \<and>
        FAILED (hrCoSetProxyBlanket r) \<longrightarrow>
          calls env' = calls env @
            [CallCoInitializeEx, CallCoInitializeSecurity, CallCoCreateInstance,
             CallConnectServer, CallCoSetProxyBlanket, CallRelease (servicesObject r),
             CallRelease (locatorObject r), CallCoUninitialize])
     \<and> (ok \<longrightarrow>
          calls env' = calls env @
            [CallCoInitializeEx, CallCoInitializeSecurity, CallCoCreateInstance,
             CallConnectServer, CallCoSetProxyBlanket]
          \<and> comInits env' = comInits env + 1
          \<and> m_pLocator s' = Some (locatorObject r) \<and> m_pServices s' = Some (servicesObject r)
          \<and> 0 < refs env' (locatorObject r) \<and> 0 < refs env' (servicesObject r))"
proof -
  consider
      (f1) "FAILED (hrCoInitializeEx r)"
    | (f2) "\<not> FAILED (hrCoInitializeEx r)" "FAILED (hrCoInitializeSecurity r)"
    | (f3) "\<not> FAILED (hrCoInitializeEx r)" "\<not> FAILED (hrCoInitializeSecurity r)"
           "FAILED (hrCoCreateInstance r)"
    | (f4) "\<not> FAILED (hrCoInitializeEx r)" "\<not> FAILED (hrCoInitializeSecurity r)"
           "\<not> FAILED (hrCoCreateInstance r)" "FAILED (hrConnectServer r)"
    | (f5) "\<not> FAILED (hrCoInitializeEx r)" "\<not> FAILED (hrCoInitializeSecurity r)"
           "\<not> FAILED (hrCoCreateInstance r)" "\<not> FAILED (hrConnectServer r)"
           "FAILED (hrCoSetProxyBlanket r)"
    | (ok) "all_succeed r"
    unfolding all_succeed_def by blast
  then show ?thesis
  proof cases
    case f1
    then show ?thesis by (auto simp: Initialize_fail1 all_succeed_def)
  next
    case f2
    then show ?thesis by (auto simp: Initialize_fail2 all_succeed_def)
  next
    case f3
    then show ?thesis by (auto simp: Initialize_fail3 all_succeed_def)
  next
    case f4
    then show ?thesis by (auto simp: Initialize_fail4 all_succeed_def)
  next
    case f5
    then show ?thesis by (auto simp: Initialize_fail5 all_succeed_def)
  next
    case ok
    then have "\<not> FAILED (hrCoInitializeEx r)" "\<not> FAILED (hrCoInitializeSecurity r)"
      "\<not> FAILED (hrCoCreateInstance r)" "\<not> FAILED (hrConnectServer r)"
      "\<not> FAILED (hrCoSetProxyBlanket r)"
      by (simp_all add: all_succeed_def)
    then show ?thesis using ok by (auto simp: Initialize_ok)
  qed
qed

text \<open>
  Witness for C3: a failing \<^verbatim>\<open>ConnectServer\<close> on a fresh monitor.
\<close>

theorem initialize_unwinds_in_order_witness:
  "(\<exists>ok env' s'.
      Initialize (ok_results\<lparr>hrCoInitializeEx := E_FAIL\<rparr>) fresh_env PerformanceMonitor_new =
        Inr (ok, env', s')
      \<and> \<not> ok \<and> comInits env' = 0 \<and> refs env' = (\<lambda>a. 0)
      \<and> calls env' = [CallCoInitializeEx])
   \<and> (\<exists>ok env' s'.
      Initialize (ok_results\<lparr>hrCoInitializeSecurity := E_FAIL\<rparr>) fresh_env PerformanceMonitor_new =
        Inr (ok, env', s')
      \<and> \<not> ok \<and> comInits env' = 0 \<and> refs env' = (\<lambda>a. 0)
      \<and> calls env' = [CallCoInitializeEx, CallCoInitializeSecurity, CallCoUninitialize])
   \<and> (\<exists>ok env' s'.
      Initialize (ok_results\<lparr>hrCoCreateInstance := E_FAIL\<rparr>) fresh_env PerformanceMonitor_new =
        Inr (ok, env', s')
      \<and> \<not> ok \<and> comInits env' = 0 \<and> refs env' = (\<lambda>a. 0)
      \<and> calls env' =
          [CallCoInitializeEx, CallCoInitializeSecurity, CallCoCreateInstance,
           CallCoUninitialize])
   \<and> (\<exists>ok env' s'.
      Initialize connect_fails fresh_env PerformanceMonitor_new = Inr (ok, env', s')
      \<and> \<not> ok \<and> comInits env' = 0 \<and> refs env' = (\<lambda>a. 0)
      \<and> calls env' =
          [CallCoInitializeEx, CallCoInitializeSecurity, CallCoCreateInstance,
           CallConnectServer, CallRelease 1, CallCoUninitialize])
   \<and> (\<exists>ok env' s'.
      Initialize (ok_results\<lparr>hrCoSetProxyBlanket := E_FAIL\<rparr>) fresh_env PerformanceMonitor_new =
        Inr (ok, env', s')
      \<and> \<not> ok \<and> comInits env' = 0 \<and> refs env' = (\<lambda>a. 0)
      \<and> calls env' =
          [CallCoInitializeEx, CallCoInitializeSecurity, CallCoCreateInstance,
           CallConnectServer, CallCoSetProxyBlanket, CallRelease 2, CallRelease 1,
           CallCoUninitialize])
   \<and> (\<exists>ok env' s'.
      Initialize ok_results fresh_env PerformanceMonitor_new = Inr (ok, env', s')
      \<and> ok \<and> comInits env' = 1 \<and> m_pLocator s' = Some 1 \<and> m_pServices s' = Some 2
      \<and> calls env' =
          [CallCoInitializeEx, CallCoInitializeSecurity, CallCoCreateInstance,
           CallConnectServer, CallCoSetProxyBlanket])"
proof -
  note ev = ok_results_def connect_fails_def FAILED_E_FAIL not_FAILED_S_OK all_succeed_def
    fresh_env_def
  have 1: "\<exists>ok env' s'.
      Initialize (ok_results\<lparr>hrCoInitializeEx := E_FAIL\<rparr>) fresh_env PerformanceMonitor_new =
        Inr (ok, env', s')
      \<and> \<not> ok \<and> comInits env' = 0 \<and> refs env' = (\<lambda>a. 0)
      \<and> calls env' = [CallCoInitializeEx]"
    using initialize_unwinds_in_order
      [of "ok_results\<lparr>hrCoInitializeEx := E_FAIL\<rparr>" fresh_env PerformanceMonitor_new]
    by (auto simp: ev)
  have 2: "\<exists>ok env' s'.
      Initialize (ok_results\<lparr>hrCoInitializeSecurity := E_FAIL\<rparr>) fresh_env PerformanceMonitor_new =
        Inr (ok, env', s')
      \<and> \<not> ok \<and> comInits env' = 0 \<and> refs env' = (\<lambda>a. 0)
      \<and> calls env' = [CallCoInitializeEx, CallCoInitializeSecurity, CallCoUninitialize]"
    using initialize_unwinds_in_order
      [of "ok_results\<lparr>hrCoInitializeSecurity := E_FAIL\<rparr>" fresh_env PerformanceMonitor_new]
    by (auto simp: ev)
  have 3: "\<exists>ok env' s'.
      Initialize (ok_results\<lparr>hrCoCreateInstance := E_FAIL\<rparr>) fresh_env PerformanceMonitor_new =
        Inr (ok, env', s')
      \<and> \<not> ok \<and> comInits env' = 0 \<and> refs env' = (\<lambda>a. 0)
      \<and> calls env' =
          [CallCoInitializeEx, CallCoInitializeSecurity, CallCoCreateInstance,
           CallCoUninitialize]"
    using initialize_unwinds_in_order
      [of "ok_results\<lparr>hrCoCreateInstance := E_FAIL\<rparr>" fresh_env PerformanceMonitor_new]
    by (auto simp: ev)
  have 4: "\<exists>ok env' s'.
      Initialize connect_fails fresh_env PerformanceMonitor_new = Inr (ok, env', s')
      \<and> \<not> ok \<and> comInits env' = 0 \<and> refs env' = (\<lambda>a. 0)
      \<and> calls env' =
          [CallCoInitializeEx, CallCoInitializeSecurity, CallCoCreateInstance,
           CallConnectServer, CallRelease 1, CallCoUninitialize]"
    using initialize_unwinds_in_order [of connect_fails fresh_env PerformanceMonitor_new]
    by (auto simp: ev)
  have 5: "\<exists>ok env' s'.
      Initialize (ok_results\<lparr>hrCoSetProxyBlanket := E_FAIL\<rparr>) fresh_env PerformanceMonitor_new =
        Inr (ok, env', s')
      \<and> \<not> ok \<and> comInits env' = 0 \<and> refs env' = (\<lambda>a. 0)
      \<and> calls env' =
          [CallCoInitializeEx, CallCoInitializeSecurity, CallCoCreateInstance,
           CallConnectServer, CallCoSetProxyBlanket, CallRelease 2, CallRelease 1,
           CallCoUninitialize]"
    using initialize_unwinds_in_order
      [of "ok_results\<lparr>hrCoSetProxyBlanket := E_FAIL\<rparr>" fresh_env PerformanceMonitor_new]
    by (auto simp: ev)
  have 6: "\<exists>ok env' s'.
      Initialize ok_results fresh_env PerformanceMonitor_new = Inr (ok, env', s')
      \<and> ok \<and> comInits env' = 1 \<and> m_pLocator s' = Some 1 \<and> m_pServices s' = Some 2
      \<and> calls env' =
          [CallCoInitializeEx, CallCoInitializeSecurity, CallCoCreateInstance,
           CallConnectServer, CallCoSetProxyBlanket]"
    using initialize_unwinds_in_order [of ok_results fresh_env PerformanceMonitor_new]
    by (auto simp: ev)
  show ?thesis using 1 2 3 4 5 6 by blast
qed

text \<open>
  Claim C7 at the failing input. After \<^verbatim>\<open>Initialize\<close> failed in \<^verbatim>\<open>ConnectServer\<close>, the
  locator has been released but \<^verbatim>\<open>m_pLocator\<close> still holds its address; the program owns no
  reference on it, and \<^verbatim>\<open>Shutdown\<close> calls \<^verbatim>\<open>Release\<close> on it once more.
\<close>

theorem shutdown_after_failed_connect_releases_twice:
  "(case Initialize connect_fails fresh_env PerformanceMonitor_new of
      Inl f \<Rightarrow> False
    | Inr (ok, env', s') \<Rightarrow>
        \<not> ok \<and> m_pLocator s' = Some 1 \<and> refs env' 1 = 0 \<and> comInits env' = 0 \<and>
        Shutdown env' s' = Inl UseAfterRelease)"
proof -
  have h: "\<not> FAILED (hrCoInitializeEx connect_fails)"
      "\<not> FAILED (hrCoInitializeSecurity connect_fails)"
      "\<not> FAILED (hrCoCreateInstance connect_fails)"
      "FAILED (hrConnectServer connect_fails)"
    by (simp_all add: connect_fails_def ok_results_def FAILED_E_FAIL not_FAILED_S_OK)
  have l: "locatorObject connect_fails = 1"
    by (simp add: connect_fails_def ok_results_def)
  show ?thesis
    by (simp add: Initialize_fail4 [OF h] l fresh_env_def PerformanceMonitor_new_def
        Shutdown_def Release_def)
qed

subsection \<open>Refresh without a connection, and the zero guard\<close>

text \<open>With a null services pointer the poll does nothing and the frame is the drawing alone.\<close>

lemma Render_not_held:
  "m_pServices (m_perfMonitor g) = None \<Longrightarrow> Render p env g = Inr (RenderPerformanceWindow g)"
  by (simp add: Update_not_held Render_def)


text \<open>
  Claim C6. When the memory object reports a total that reads as 0, \<^verbatim>\<open>Update\<close> returns and
  the memory value is the one before the call.
\<close>

theorem zero_total_memory_skips_update:
  assumes "m_pServices s = Some svc" and "refs env svc \<noteq> 0"
    and "p memQuery = ExecOk (NextNoError pClsObj)"
    and "pClsObj ''TotalVisibleMemorySize'' = Some (VT_BSTR t)"
    and "pClsObj ''FreePhysicalMemory'' = Some (VT_BSTR f)"
    and "wtol t = 0"
  shows "\<exists>s'. Update p env s = Inr s' \<and> m_memoryUsage s' = m_memoryUsage s"
proof -
  have "mem_readable p"
    using assms(3-5) by (simp add: mem_readable_def is_bstr_def)
  then obtain s' where u: "Update p env s = Inr s'"
    using Update_total [OF assms(1,2)] by blast
  have "m_pServices s \<noteq> None" using assms(1) by simp
  then have "m_memoryUsage s' = m_memoryUsage s"
    using Update_mem_record [OF u _ assms(3-5)] assms(6) by simp
  then show ?thesis using u by blast
qed

text \<open>
  Witness for C6: total \<open>''0''\<close>; the memory value stays at 20.
\<close>

theorem zero_total_memory_skips_update_witness:
  "wtol ''0'' = 0 \<and>
   (\<exists>s'. Update zero_total connected_env connected_monitor = Inr s' \<and> m_memoryUsage s' = 20)"
proof -
  have a: "m_pServices connected_monitor = Some 2" by (simp add: connected_monitor_def)
  have b: "refs connected_env 2 \<noteq> 0" by (simp add: connected_env_def)
  have m: "zero_total memQuery =
      ExecOk (NextNoError (\<lambda>m. if m = ''TotalVisibleMemorySize'' then Some (VT_BSTR ''0'')
                               else if m = ''FreePhysicalMemory'' then Some (VT_BSTR ''4000000'')
                               else None))"
    by (simp add: zero_total_def fixture_defs)
  have z: "wtol ''0'' = 0" by (simp add: wtol_eval)
  have "\<exists>s'. Update zero_total connected_env connected_monitor = Inr s' \<and>
      m_memoryUsage s' = m_memoryUsage connected_monitor"
    using zero_total_memory_skips_update [where s = connected_monitor and svc = 2
        and env = connected_env and p = zero_total and t = "''0''" and f = "''4000000''"
        and pClsObj = "\<lambda>m. if m = ''TotalVisibleMemorySize'' then Some (VT_BSTR ''0'')
                               else if m = ''FreePhysicalMemory'' then Some (VT_BSTR ''4000000'')
                               else None"]
      a b m z
    by simp
  then show ?thesis using z by (simp add: connected_monitor_def)
qed

subsection \<open>Unsigned wrap-around in the memory percentage\<close>

lemma unat_sub_wraps:
  fixes a b :: ULONG
  assumes "unat a < unat b"
  shows "unat (a - b) = 2 ^ 32 - (unat b - unat a)"
proof -
  have "unat b < 2 ^ 32" using unsigned_less [of b, where ?'a = nat] by simp
  then show ?thesis using assms by (simp add: unat_sub_if_size word_size)
qed

lemma ratio_ge_100:
  fixes x y :: nat
  assumes "0 < x" "x \<le> y"
  shows "100 \<le> real y / real x * 100"
proof -
  have "real x \<le> real y" using assms(2) by simp
  moreover have "0 < real x" using assms(1) by simp
  ultimately show ?thesis
    by (simp add: pos_le_divide_eq)
qed

lemma wrapped_ratio_ge_100:
  fixes a b :: ULONG
  assumes "0 < unat a" "unat a < unat b"
  shows "100 \<le> to_float (a - b) / to_float a * 100"
proof -
  have "unat b < 2 ^ 32" using unsigned_less [of b, where ?'a = nat] by simp
  then have "unat a \<le> unat (a - b)"
    using assms by (simp add: unat_sub_wraps)
  then show ?thesis
    unfolding to_float_def using assms(1) by (rule ratio_ge_100 [rotated])
qed

text \<open>
  Claim C10. When the reported free memory exceeds a total above 0, the 32-bit difference
  \<open>totalMemory - freeMemory\<close> wraps to \<open>2^32 - (free - total)\<close>, and the stored percentage is
  that number divided by the total, times 100: at least 100, never negative.
\<close>

theorem memory_difference_wraps:
  assumes "m_pServices s = Some svc" and "refs env svc \<noteq> 0"
    and "p memQuery = ExecOk (NextNoError pClsObj)"
    and "pClsObj ''TotalVisibleMemorySize'' = Some (VT_BSTR t)"
    and "pClsObj ''FreePhysicalMemory'' = Some (VT_BSTR f)"
    and "0 < unat (wtol t)" and "unat (wtol t) < unat (wtol f)"
  shows "\<exists>s'. Update p env s = Inr s'
     \<and> unat (wtol t - wtol f) = 2 ^ 32 - (unat (wtol f) - unat (wtol t))
     \<and> m_memoryUsage s' = real (2 ^ 32 - (unat (wtol f) - unat (wtol t))) / real (unat (wtol t)) * 100
     \<and> 100 \<le> m_memoryUsage s'"
proof -
  have "mem_readable p"
    using assms(3-5) by (simp add: mem_readable_def is_bstr_def)
  then obtain s' where u: "Update p env s = Inr s'"
    using Update_total [OF assms(1,2)] by blast
  have "m_pServices s \<noteq> None" using assms(1) by simp
  then have m: "m_memoryUsage s' = to_float (wtol t - wtol f) / to_float (wtol t) * 100"
    using Update_mem_record [OF u _ assms(3-5)] assms(6) by simp
  have w: "unat (wtol t - wtol f) = 2 ^ 32 - (unat (wtol f) - unat (wtol t))"
    using assms(7) by (rule unat_sub_wraps)
  have "100 \<le> m_memoryUsage s'"
    using wrapped_ratio_ge_100 [OF assms(6,7)] m by simp
  moreover have "m_memoryUsage s' =
      real (2 ^ 32 - (unat (wtol f) - unat (wtol t))) / real (unat (wtol t)) * 100"
    using m w by (simp add: to_float_def)
  ultimately show ?thesis using u w by blast
qed

text \<open>
  Witness for C10: total 1000 and free 2000 store 429496629.6 percent.
\<close>

theorem memory_difference_wraps_witness:
  "0 < unat (wtol ''1000'') \<and> unat (wtol ''1000'') < unat (wtol ''2000'')
   \<and> unat (wtol ''1000'' - wtol ''2000'') = 4294966296
   \<and> (\<exists>s'. Update free_exceeds_total connected_env connected_monitor = Inr s'
          \<and> m_memoryUsage s' = 429496629.6 \<and> 100 \<le> m_memoryUsage s')"
proof -
  have a: "m_pServices connected_monitor = Some 2" by (simp add: connected_monitor_def)
  have b: "refs connected_env 2 \<noteq> 0" by (simp add: connected_env_def)
  have m: "free_exceeds_total memQuery =
      ExecOk (NextNoError (\<lambda>m. if m = ''TotalVisibleMemorySize'' then Some (VT_BSTR ''1000'')
                               else if m = ''FreePhysicalMemory'' then Some (VT_BSTR ''2000'')
                               else None))"
    by (simp add: free_exceeds_total_def fixture_defs)
  have t: "wtol ''1000'' = 1000" by (simp add: wtol_eval)
  have f: "wtol ''2000'' = 2000" by (simp add: wtol_eval)
  show ?thesis
    using memory_difference_wraps [where s = connected_monitor and svc = 2
        and env = connected_env and p = free_exceeds_total and t = "''1000''" and f = "''2000''"
        and pClsObj = "\<lambda>m. if m = ''TotalVisibleMemorySize'' then Some (VT_BSTR ''1000'')
                               else if m = ''FreePhysicalMemory'' then Some (VT_BSTR ''2000'')
                               else None"]
      a b m
    by (simp add: t f)
qed

subsection \<open>Outcomes of a single-property query\<close>

text \<open>
  Claim C9, as amended. \<^verbatim>\<open>GetWmiPropertyValue\<close> returns \<^verbatim>\<open>true\<close> with \<open>v\<close> exactly when the
  query succeeds, \<^verbatim>\<open>Next\<close> delivers an object, \<^verbatim>\<open>Get\<close> succeeds and the variant is either a
  string (any text; \<open>v\<close> is what \<^verbatim>\<open>_wtol\<close> reads from it) or a \<^verbatim>\<open>VT_I4\<close> holding \<open>v\<close>. In
  every other case it returns \<^verbatim>\<open>false\<close> and leaves \<^verbatim>\<open>value\<close> as it was, and \<^verbatim>\<open>Update\<close>
  leaves the metric as it was.
\<close>

theorem single_property_query_outcomes:
  "(GetWmiPropertyValue p q n val = (True, v)) =
     (\<exists>pClsObj. p q = ExecOk (NextNoError pClsObj) \<and>
        ((\<exists>b. pClsObj n = Some (VT_BSTR b) \<and> v = wtol b) \<or> pClsObj n = Some (VT_I4 v)))
   \<and> (fst (GetWmiPropertyValue p q n val) = False \<longrightarrow>
        GetWmiPropertyValue p q n val = (False, val))
   \<and> (Update p env s = Inr s' \<and>
      fst (GetWmiPropertyValue p cpuQuery ''PercentProcessorTime'' 0) = False \<longrightarrow>
        m_cpuLoad s' = m_cpuLoad s)
   \<and> (Update p env s = Inr s' \<and>
      fst (GetWmiPropertyValue p diskQuery ''PercentDiskTime'' 0) = False \<longrightarrow>
        m_diskUsage s' = m_diskUsage s)"
proof (intro conjI impI)
  show "(GetWmiPropertyValue p q n val = (True, v)) =
     (\<exists>pClsObj. p q = ExecOk (NextNoError pClsObj) \<and>
        ((\<exists>b. pClsObj n = Some (VT_BSTR b) \<and> v = wtol b) \<or> pClsObj n = Some (VT_I4 v)))"
    by (rule GetWmiPropertyValue_True_iff)
next
  assume "fst (GetWmiPropertyValue p q n val) = False"
  then show "GetWmiPropertyValue p q n val = (False, val)"
    using GetWmiPropertyValue_False [of p q n val] by (simp add: prod_eq_iff)
next
  assume a: "Update p env s = Inr s' \<and>
      fst (GetWmiPropertyValue p cpuQuery ''PercentProcessorTime'' 0) = False"
  show "m_cpuLoad s' = m_cpuLoad s"
  proof (cases "m_pServices s")
    case None
    then show ?thesis using a by (simp add: Update_not_held)
  next
    case (Some svc)
    then show ?thesis using a Update_cpu [of p env s s'] by simp
  qed
next
  assume a: "Update p env s = Inr s' \<and>
      fst (GetWmiPropertyValue p diskQuery ''PercentDiskTime'' 0) = False"
  show "m_diskUsage s' = m_diskUsage s"
  proof (cases "m_pServices s")
    case None
    then show ?thesis using a by (simp add: Update_not_held)
  next
    case (Some svc)
    then show ?thesis using a Update_disk [of p env s s'] by simp
  qed
qed

text \<open>
  Witness for C9: the text \<open>''37''\<close>, the integer 5, and a floating-point variant.
\<close>

theorem single_property_query_outcomes_witness:
  "GetWmiPropertyValue disk_fails cpuQuery ''PercentProcessorTime'' 0 = (True, 37)
   \<and> GetWmiPropertyValue cpu_is_real diskQuery ''PercentDiskTime'' 0 = (True, 5)
   \<and> fst (GetWmiPropertyValue cpu_is_real cpuQuery ''PercentProcessorTime'' 0) = False
   \<and> GetWmiPropertyValue cpu_is_real cpuQuery ''PercentProcessorTime'' 0 = (False, 0)
   \<and> Update cpu_is_real connected_env connected_monitor =
       Inr (connected_monitor\<lparr>m_diskUsage := 5\<rparr>)
   \<and> m_cpuLoad (connected_monitor\<lparr>m_diskUsage := 5\<rparr>) = m_cpuLoad connected_monitor
   \<and> fst (GetWmiPropertyValue disk_fails diskQuery ''PercentDiskTime'' 0) = False
   \<and> (\<exists>s'. Update disk_fails connected_env connected_monitor = Inr s'
          \<and> m_diskUsage s' = m_diskUsage connected_monitor)"
proof -
  have c: "disk_fails cpuQuery =
      ExecOk (NextNoError (\<lambda>m. if m = ''PercentProcessorTime'' then Some (VT_BSTR ''37'') else None))"
    by (simp add: disk_fails_def fixture_defs)
  have w: "wtol ''37'' = 37" by (simp add: wtol_eval)
  have 1: "GetWmiPropertyValue disk_fails cpuQuery ''PercentProcessorTime'' 0 = (True, 37)"
    using single_property_query_outcomes [of disk_fails cpuQuery "''PercentProcessorTime''" 0 37]
      c w by auto
  have d: "cpu_is_real diskQuery =
      ExecOk (NextNoError (\<lambda>m. if m = ''PercentDiskTime'' then Some (VT_I4 5) else None))"
    by (simp add: cpu_is_real_def fixture_defs)
  have 2: "GetWmiPropertyValue cpu_is_real diskQuery ''PercentDiskTime'' 0 = (True, 5)"
    using single_property_query_outcomes [of cpu_is_real diskQuery "''PercentDiskTime''" 0 5]
      d by auto
  have 3: "fst (GetWmiPropertyValue cpu_is_real cpuQuery ''PercentProcessorTime'' 0) = False"
    by (simp add: GetWmiPropertyValue_def cpu_is_real_def fixture_defs)
  have 4: "GetWmiPropertyValue cpu_is_real cpuQuery ''PercentProcessorTime'' 0 = (False, 0)"
    using single_property_query_outcomes [of cpu_is_real cpuQuery "''PercentProcessorTime''" 0]
      3 by blast
  have 5: "Update cpu_is_real connected_env connected_monitor =
       Inr (connected_monitor\<lparr>m_diskUsage := 5\<rparr>)"
    by (rule Update_cpu_is_real)
  have 6: "m_cpuLoad (connected_monitor\<lparr>m_diskUsage := 5\<rparr>) = m_cpuLoad connected_monitor"
    using single_property_query_outcomes [where p = cpu_is_real and env = connected_env
        and s = connected_monitor and s' = "connected_monitor\<lparr>m_diskUsage := 5\<rparr>"] 3 5
    by blast
  have "mem_readable disk_fails"
    by (simp add: mem_readable_def disk_fails_mem memory_record_def is_bstr_def)
  then obtain s' where u: "Update disk_fails connected_env connected_monitor = Inr s'"
    using Update_total [OF connected_held] by blast
  have 7: "\<exists>s'. Update disk_fails connected_env connected_monitor = Inr s'
          \<and> m_diskUsage s' = m_diskUsage connected_monitor"
    using single_property_query_outcomes [where p = disk_fails and env = connected_env
        and s = connected_monitor and s' = s'] u disk_fails_disk
    by blast
  show ?thesis using 1 2 3 4 5 6 7 disk_fails_disk by blast
qed

text \<open>
  Counterexample for C9 as stated: a text that encodes no number is a success with value 0,
  and a native unsigned integer is a failure.
\<close>

theorem single_property_query_counterexample:
  "GetWmiPropertyValue
      (answers (single_property ''PercentProcessorTime'' (VT_BSTR ''n/a'')) ExecFailed ExecFailed)
      cpuQuery ''PercentProcessorTime'' 5 = (True, 0)
   \<and> GetWmiPropertyValue
      (answers (single_property ''PercentProcessorTime'' (VT_UI4 7)) ExecFailed ExecFailed)
      cpuQuery ''PercentProcessorTime'' 5 = (False, 5)"
  by (simp add: GetWmiPropertyValue_def fixture_defs wtol_eval)

subsection \<open>The current values over all runs\<close>

lemma to_float_nonneg: "0 \<le> to_float x"
  unfolding to_float_def by (rule of_nat_0_le_iff)

lemma percentage_nonneg: "0 \<le> to_float a / to_float b * 100"
  using to_float_nonneg [of a] to_float_nonneg [of b] by simp

lemma Update_nonneg:
  assumes "Update p env s = Inr s'"
    and "0 \<le> m_cpuLoad s \<and> 0 \<le> m_memoryUsage s \<and> 0 \<le> m_diskUsage s"
  shows "0 \<le> m_cpuLoad s' \<and> 0 \<le> m_memoryUsage s' \<and> 0 \<le> m_diskUsage s'"
  using assms
  by (auto simp: Update_def Let_def to_float_nonneg percentage_nonneg
      split: option.splits if_splits prod.splits exec_result.splits next_result.splits sum.splits)

lemma Update_unsampled:
  assumes "Update p env s = Inr s'"
  shows "(\<not> cpu_sampled p \<longrightarrow> m_cpuLoad s' = m_cpuLoad s)
     \<and> (\<not> mem_sampled p \<longrightarrow> m_memoryUsage s' = m_memoryUsage s)
     \<and> (\<not> disk_sampled p \<longrightarrow> m_diskUsage s' = m_diskUsage s)"
  using assms
  by (auto simp: Update_def Let_def cpu_sampled_def mem_sampled_def disk_sampled_def
        read_bstrVal_def
      split: option.splits if_splits prod.splits exec_result.splits next_result.splits sum.splits
        variant.splits)

lemma step_nonneg:
  assumes "step (env, s) x = Inr (env', s')"
    and "0 \<le> m_cpuLoad s \<and> 0 \<le> m_memoryUsage s \<and> 0 \<le> m_diskUsage s"
  shows "0 \<le> m_cpuLoad s' \<and> 0 \<le> m_memoryUsage s' \<and> 0 \<le> m_diskUsage s'"
proof (cases x)
  case (OpInitialize r)
  then show ?thesis
    using assms Initialize_values [of r env s] by (auto split: sum.splits)
next
  case (OpUpdate p)
  then show ?thesis
    using assms Update_nonneg [of p env s] by (auto split: sum.splits)
next
  case OpShutdown
  then show ?thesis
    using assms Shutdown_values [of env s] by auto
qed

lemma run_nonneg:
  "run (env, s) ops = Inr (env', s') \<Longrightarrow>
   0 \<le> m_cpuLoad s \<and> 0 \<le> m_memoryUsage s \<and> 0 \<le> m_diskUsage s \<Longrightarrow>
   0 \<le> m_cpuLoad s' \<and> 0 \<le> m_memoryUsage s' \<and> 0 \<le> m_diskUsage s'"
proof (induction ops arbitrary: env s)
  case Nil
  then show ?case by simp
next
  case (Cons x xs)
  from Cons.prems(1) obtain env1 s1 where
    st: "step (env, s) x = Inr (env1, s1)" and rest: "run (env1, s1) xs = Inr (env', s')"
    by (auto split: sum.splits)
  from step_nonneg [OF st Cons.prems(2)] Cons.IH [OF rest] show ?case by blast
qed

lemma step_unsampled:
  assumes "step (env, s) x = Inr (env', s')"
  shows "(list_all (\<lambda>p. \<not> cpu_sampled p) (updates_of [x]) \<longrightarrow> m_cpuLoad s' = m_cpuLoad s)
     \<and> (list_all (\<lambda>p. \<not> mem_sampled p) (updates_of [x]) \<longrightarrow> m_memoryUsage s' = m_memoryUsage s)
     \<and> (list_all (\<lambda>p. \<not> disk_sampled p) (updates_of [x]) \<longrightarrow> m_diskUsage s' = m_diskUsage s)"
proof (cases x)
  case (OpInitialize r)
  then show ?thesis
    using assms Initialize_values [of r env s] by (auto split: sum.splits)
next
  case (OpUpdate p)
  then show ?thesis
    using assms Update_unsampled [of p env s] by (auto split: sum.splits)
next
  case OpShutdown
  then show ?thesis
    using assms Shutdown_values [of env s] by auto
qed

lemma updates_of_Cons: "updates_of (x # xs) = updates_of [x] @ updates_of xs"
  by (cases x) simp_all

lemma run_unsampled:
  "run (env, s) ops = Inr (env', s') \<Longrightarrow>
   (list_all (\<lambda>p. \<not> cpu_sampled p) (updates_of ops) \<longrightarrow> m_cpuLoad s' = m_cpuLoad s)
   \<and> (list_all (\<lambda>p. \<not> mem_sampled p) (updates_of ops) \<longrightarrow> m_memoryUsage s' = m_memoryUsage s)
   \<and> (list_all (\<lambda>p. \<not> disk_sampled p) (updates_of ops) \<longrightarrow> m_diskUsage s' = m_diskUsage s)"
proof (induction ops arbitrary: env s)
  case Nil
  then show ?case by simp
next
  case (Cons x xs)
  from Cons.prems obtain env1 s1 where
    st: "step (env, s) x = Inr (env1, s1)" and rest: "run (env1, s1) xs = Inr (env', s')"
    by (auto split: sum.splits)
  have split: "updates_of (x # xs) = updates_of [x] @ updates_of xs"
    by (rule updates_of_Cons)
  from step_unsampled [OF st] Cons.IH [OF rest] show ?case
    unfolding split list_all_append by auto
qed

text \<open>
  Claim C8, as amended. In every state reached from the constructor by \<^verbatim>\<open>Initialize\<close>,
  \<^verbatim>\<open>Update\<close> and \<^verbatim>\<open>Shutdown\<close> calls, the three current values are at least 0, and a value
  is still 0.0 when no \<^verbatim>\<open>Update\<close> of the run sampled its metric. \<^verbatim>\<open>Update\<close> leaves a metric
  that it did not sample as it was; \<^verbatim>\<open>Initialize\<close> and \<^verbatim>\<open>Shutdown\<close> leave all three as they
  were.
\<close>

theorem current_values_nonnegative_and_sticky:
  "(run (env0, PerformanceMonitor_new) ops = Inr (env, s) \<longrightarrow>
      0 \<le> GetCpuLoad s \<and> 0 \<le> GetMemoryUsage s \<and> 0 \<le> GetDiskUsage s
      \<and> (list_all (\<lambda>p. \<not> cpu_sampled p) (updates_of ops) \<longrightarrow> GetCpuLoad s = 0)
      \<and> (list_all (\<lambda>p. \<not> mem_sampled p) (updates_of ops) \<longrightarrow> GetMemoryUsage s = 0)
      \<and> (list_all (\<lambda>p. \<not> disk_sampled p) (updates_of ops) \<longrightarrow> GetDiskUsage s = 0))
   \<and> (Update p e1 s1 = Inr s2 \<longrightarrow>
        (\<not> cpu_sampled p \<longrightarrow> m_cpuLoad s2 = m_cpuLoad s1)
        \<and> (\<not> mem_sampled p \<longrightarrow> m_memoryUsage s2 = m_memoryUsage s1)
        \<and> (\<not> disk_sampled p \<longrightarrow> m_diskUsage s2 = m_diskUsage s1))
   \<and> (Initialize r e1 s1 = Inr (ok, e3, s3) \<longrightarrow>
        m_cpuLoad s3 = m_cpuLoad s1 \<and> m_memoryUsage s3 = m_memoryUsage s1
        \<and> m_diskUsage s3 = m_diskUsage s1)
   \<and> (Shutdown e1 s1 = Inr (e4, s4) \<longrightarrow>
        m_cpuLoad s4 = m_cpuLoad s1 \<and> m_memoryUsage s4 = m_memoryUsage s1
        \<and> m_diskUsage s4 = m_diskUsage s1)"
proof (intro conjI impI)
  assume r: "run (env0, PerformanceMonitor_new) ops = Inr (env, s)"
  have z: "0 \<le> m_cpuLoad PerformanceMonitor_new \<and> 0 \<le> m_memoryUsage PerformanceMonitor_new
      \<and> 0 \<le> m_diskUsage PerformanceMonitor_new"
    by (simp add: PerformanceMonitor_new_def)
  from run_nonneg [OF r z]
  show "0 \<le> GetCpuLoad s" "0 \<le> GetMemoryUsage s" "0 \<le> GetDiskUsage s"
    by (simp_all add: GetCpuLoad_def GetMemoryUsage_def GetDiskUsage_def)
  {
    assume "list_all (\<lambda>p. \<not> cpu_sampled p) (updates_of ops)"
    then show "GetCpuLoad s = 0"
      using run_unsampled [OF r] by (simp add: GetCpuLoad_def PerformanceMonitor_new_def)
  }
  {
    assume "list_all (\<lambda>p. \<not> mem_sampled p) (updates_of ops)"
    then show "GetMemoryUsage s = 0"
      using run_unsampled [OF r] by (simp add: GetMemoryUsage_def PerformanceMonitor_new_def)
  }
  {
    assume "list_all (\<lambda>p. \<not> disk_sampled p) (updates_of ops)"
    then show "GetDiskUsage s = 0"
      using run_unsampled [OF r] by (simp add: GetDiskUsage_def PerformanceMonitor_new_def)
  }
next
  assume u: "Update p e1 s1 = Inr s2"
  {
    assume "\<not> cpu_sampled p"
    then show "m_cpuLoad s2 = m_cpuLoad s1" using Update_unsampled [OF u] by blast
  }
  {
    assume "\<not> mem_sampled p"
    then show "m_memoryUsage s2 = m_memoryUsage s1" using Update_unsampled [OF u] by blast
  }
  {
    assume "\<not> disk_sampled p"
    then show "m_diskUsage s2 = m_diskUsage s1" using Update_unsampled [OF u] by blast
  }
next
  assume i: "Initialize r e1 s1 = Inr (ok, e3, s3)"
  from Initialize_values [OF i]
  show "m_cpuLoad s3 = m_cpuLoad s1" "m_memoryUsage s3 = m_memoryUsage s1"
    "m_diskUsage s3 = m_diskUsage s1"
    by simp_all
next
  assume d: "Shutdown e1 s1 = Inr (e4, s4)"
  from Shutdown_values [OF d]
  show "m_cpuLoad s4 = m_cpuLoad s1" "m_memoryUsage s4 = m_memoryUsage s1"
    "m_diskUsage s4 = m_diskUsage s1"
    by simp_all
qed

lemma all_succeed_ok_results: "all_succeed ok_results"
  by (simp add: all_succeed_def ok_results_def not_FAILED_S_OK)

lemma Initialize_ok_results:
  "Initialize ok_results fresh_env PerformanceMonitor_new =
     Inr (True, connected_env, PerformanceMonitor_new\<lparr>m_pLocator := Some 1, m_pServices := Some 2\<rparr>)"
  unfolding Initialize_ok [OF all_succeed_ok_results]
  by (simp add: fresh_env_def connected_env_def ok_results_def fun_eq_iff)

lemma run_cpu_is_real:
  "run (fresh_env, PerformanceMonitor_new) [OpInitialize ok_results, OpUpdate cpu_is_real] =
     Inr (connected_env,
          PerformanceMonitor_new\<lparr>m_pLocator := Some 1, m_pServices := Some 2, m_diskUsage := 5\<rparr>)"
  by (simp add: Initialize_ok_results Update_def cpu_is_real_outcomes to_float_def)
     (simp add: connected_env_def)

text \<open>
  Witness for C8: a run in which the CPU query fails and the disk query succeeds.
\<close>

theorem current_values_nonnegative_and_sticky_witness:
  "run (fresh_env, PerformanceMonitor_new) [OpInitialize ok_results, OpUpdate cpu_is_real] =
     Inr (connected_env,
          PerformanceMonitor_new\<lparr>m_pLocator := Some 1, m_pServices := Some 2, m_diskUsage := 5\<rparr>)
   \<and> list_all (\<lambda>p. \<not> cpu_sampled p) (updates_of [OpInitialize ok_results, OpUpdate cpu_is_real])
   \<and> GetCpuLoad (PerformanceMonitor_new\<lparr>m_pLocator := Some 1, m_pServices := Some 2, m_diskUsage := 5\<rparr>) = 0
   \<and> 0 \<le> GetDiskUsage (PerformanceMonitor_new\<lparr>m_pLocator := Some 1, m_pServices := Some 2, m_diskUsage := 5\<rparr>)
   \<and> Update cpu_is_real connected_env connected_monitor = Inr (connected_monitor\<lparr>m_diskUsage := 5\<rparr>)
   \<and> \<not> cpu_sampled cpu_is_real \<and> \<not> mem_sampled cpu_is_real
   \<and> m_cpuLoad (connected_monitor\<lparr>m_diskUsage := 5\<rparr>) = m_cpuLoad connected_monitor
   \<and> m_memoryUsage (connected_monitor\<lparr>m_diskUsage := 5\<rparr>) = m_memoryUsage connected_monitor
   \<and> (\<exists>ok e3 s3. Initialize connect_fails connected_env connected_monitor = Inr (ok, e3, s3)
         \<and> m_cpuLoad s3 = 10 \<and> m_memoryUsage s3 = 20 \<and> m_diskUsage s3 = 30)
   \<and> (\<exists>e4 s4. Shutdown connected_env connected_monitor = Inr (e4, s4)
         \<and> m_cpuLoad s4 = 10 \<and> m_memoryUsage s4 = 20 \<and> m_diskUsage s4 = 30)"
proof -
  have u: "list_all (\<lambda>p. \<not> cpu_sampled p) (updates_of [OpInitialize ok_results, OpUpdate cpu_is_real])"
    by (simp add: cpu_sampled_def cpu_is_real_outcomes)
  have first: "run (fresh_env, PerformanceMonitor_new) [OpInitialize ok_results, OpUpdate cpu_is_real] =
     Inr (connected_env,
          PerformanceMonitor_new\<lparr>m_pLocator := Some 1, m_pServices := Some 2, m_diskUsage := 5\<rparr>)
   \<and> list_all (\<lambda>p. \<not> cpu_sampled p) (updates_of [OpInitialize ok_results, OpUpdate cpu_is_real])
   \<and> GetCpuLoad (PerformanceMonitor_new\<lparr>m_pLocator := Some 1, m_pServices := Some 2, m_diskUsage := 5\<rparr>) = 0
   \<and> 0 \<le> GetDiskUsage (PerformanceMonitor_new\<lparr>m_pLocator := Some 1, m_pServices := Some 2, m_diskUsage := 5\<rparr>)"
    using current_values_nonnegative_and_sticky [where ?env0.0 = fresh_env
        and ops = "[OpInitialize ok_results, OpUpdate cpu_is_real]" and env = connected_env
        and s = "PerformanceMonitor_new\<lparr>m_pLocator := Some 1, m_pServices := Some 2, m_diskUsage := 5\<rparr>"]
      run_cpu_is_real u
    by blast
  have ns: "\<not> cpu_sampled cpu_is_real" "\<not> mem_sampled cpu_is_real"
    by (simp_all add: cpu_sampled_def mem_sampled_def cpu_is_real_outcomes)
  have second: "m_cpuLoad (connected_monitor\<lparr>m_diskUsage := 5\<rparr>) = m_cpuLoad connected_monitor
      \<and> m_memoryUsage (connected_monitor\<lparr>m_diskUsage := 5\<rparr>) = m_memoryUsage connected_monitor"
    using current_values_nonnegative_and_sticky [where p = cpu_is_real and ?e1.0 = connected_env
        and ?s1.0 = connected_monitor and ?s2.0 = "connected_monitor\<lparr>m_diskUsage := 5\<rparr>"]
      Update_cpu_is_real ns
    by blast
  obtain ok e3 s3 where i: "Initialize connect_fails connected_env connected_monitor = Inr (ok, e3, s3)"
    by (auto simp: Initialize_fail4 connect_fails_def ok_results_def FAILED_E_FAIL not_FAILED_S_OK)
  have third: "\<exists>ok e3 s3. Initialize connect_fails connected_env connected_monitor = Inr (ok, e3, s3)
         \<and> m_cpuLoad s3 = 10 \<and> m_memoryUsage s3 = 20 \<and> m_diskUsage s3 = 30"
    using current_values_nonnegative_and_sticky [where r = connect_fails and ?e1.0 = connected_env
        and ?s1.0 = connected_monitor and ok = ok and ?e3.0 = e3 and ?s3.0 = s3] i
    by (auto simp: connected_monitor_def)
  obtain e4 s4 where d: "Shutdown connected_env connected_monitor = Inr (e4, s4)"
    by (auto simp: Shutdown_def com_defs connected_env_def connected_monitor_def)
  have fourth: "\<exists>e4 s4. Shutdown connected_env connected_monitor = Inr (e4, s4)
         \<and> m_cpuLoad s4 = 10 \<and> m_memoryUsage s4 = 20 \<and> m_diskUsage s4 = 30"
    using current_values_nonnegative_and_sticky [where ?e1.0 = connected_env
        and ?s1.0 = connected_monitor and ?e4.0 = e4 and ?s4.0 = s4] d
    by (auto simp: connected_monitor_def)
  show ?thesis using first second third fourth Update_cpu_is_real ns by blast
qed

text \<open>
  Counterexample for C8 as stated: after a successful \<^verbatim>\<open>Initialize\<close>, one \<^verbatim>\<open>Update\<close> with a CPU
  counter of 250 gives a current value of 250.
\<close>

theorem current_value_above_100_counterexample:
  "(case run (fresh_env, PerformanceMonitor_new) [OpInitialize ok_results, OpUpdate cpu_250] of
      Inl f \<Rightarrow> False
    | Inr (env, s) \<Rightarrow> GetCpuLoad s = 250 \<and> \<not> GetCpuLoad s \<le> 100)"
proof -
  have "GetWmiPropertyValue cpu_250 cpuQuery ''PercentProcessorTime'' 0 = (True, 250)"
    "cpu_250 memQuery = ExecFailed"
    "GetWmiPropertyValue cpu_250 diskQuery ''PercentDiskTime'' 0 = (False, 0)"
    by (simp_all add: GetWmiPropertyValue_def cpu_250_def fixture_defs)
  then show ?thesis
    by (simp add: Initialize_ok_results Update_def to_float_def GetCpuLoad_def)
       (simp add: connected_env_def)
qed

end
